theory Spec2Isabelle
  imports Complex_Main "HOL-Library.Word"
begin

section \<open>Vectors and the GLM helpers used by the camera\<close>

text \<open>
  The demo computes with C++ \<^verbatim>\<open>float\<close>. This development reads a \<^verbatim>\<open>float\<close> in two ways. The
  camera, the cursor callback and the model matrix are first written over the real numbers:
  the reading in which every operation is exact and no value is infinite or NaN. It is
  used where the code does no arithmetic (the drag-inactive branch of the camera update),
  where the property is the evaluation of the code at one input on which the arithmetic is
  exact, and for the model matrix. The section on float arithmetic below then models the
  binary32 values with their infinities, NaN and rounding, and writes the camera update,
  the cursor callback and the scroll callback over them; the properties of the clamped
  pitch and field of view and of the length of the front vector are stated in that model.
  The GLM functions \<^verbatim>\<open>glm::radians\<close>, \<^verbatim>\<open>glm::dot\<close> and \<^verbatim>\<open>glm::normalize\<close> are library code; they are
  written out here from their GLM definitions (degrees times pi/180, the sum of the
  component products, and the vector times the inverse square root of its dot product
  with itself).
\<close>

datatype vec3 = Vec3 (vec3_x: real) (vec3_y: real) (vec3_z: real)

definition radians :: "real \<Rightarrow> real" where
  "radians degrees = degrees * (pi / 180)"

definition dot3 :: "vec3 \<Rightarrow> vec3 \<Rightarrow> real" where
  "dot3 a b = vec3_x a * vec3_x b + vec3_y a * vec3_y b + vec3_z a * vec3_z b"

definition scale3 :: "vec3 \<Rightarrow> real \<Rightarrow> vec3" where
  "scale3 v k = Vec3 (vec3_x v * k) (vec3_y v * k) (vec3_z v * k)"

definition inversesqrt :: "real \<Rightarrow> real" where
  "inversesqrt r = 1 / sqrt r"

definition normalize3 :: "vec3 \<Rightarrow> vec3" where
  "normalize3 v = scale3 v (inversesqrt (dot3 v v))"

section \<open>The camera (struct Camera)\<close>

record Camera =
  pos :: vec3
  front :: vec3
  up :: vec3
  yaw :: real
  pitch :: real
  fov :: real
  lastX :: real
  lastY :: real
  firstMouse :: bool
  mouseDown :: bool

text \<open>The default member initialisers of \<^verbatim>\<open>struct Camera\<close>.\<close>

definition camera_init :: Camera where
  "camera_init = \<lparr> pos = Vec3 0 1.5 10, front = Vec3 0 0 (-1), up = Vec3 0 1 0,
     yaw = -90, pitch = -10, fov = 45, lastX = 400, lastY = 300,
     firstMouse = True, mouseDown = False \<rparr>"

text \<open>
  \<^verbatim>\<open>Camera::processMouseMove\<close>. The early return of the drag-inactive case is the first
  branch. The two pitch tests are two separate \<^verbatim>\<open>if\<close> statements in the source and are
  kept as two steps. The field \<^verbatim>\<open>firstMouse\<close> is not read anywhere in the method.
\<close>

definition processMouseMove :: "Camera \<Rightarrow> real \<Rightarrow> real \<Rightarrow> Camera" where
  "processMouseMove c xpos ypos =
     (if \<not> mouseDown c then c\<lparr> lastX := xpos, lastY := ypos \<rparr>
      else
        let xoffset = xpos - lastX c;
            yoffset = lastY c - ypos;
            c1 = c\<lparr> lastX := xpos, lastY := ypos \<rparr>;
            sensitivity = 0.18;
            xoffset = xoffset * sensitivity;
            yoffset = yoffset * sensitivity;
            c2 = c1\<lparr> yaw := yaw c1 + xoffset, pitch := pitch c1 + yoffset \<rparr>;
            c3 = (if pitch c2 > 89 then c2\<lparr> pitch := 89 \<rparr> else c2);
            c4 = (if pitch c3 < -89 then c3\<lparr> pitch := -89 \<rparr> else c3);
            dir = Vec3 (cos (radians (yaw c4)) * cos (radians (pitch c4)))
                       (sin (radians (pitch c4)))
                       (sin (radians (yaw c4)) * cos (radians (pitch c4)))
        in c4\<lparr> front := normalize3 dir \<rparr>)"

section \<open>Input callbacks\<close>

text \<open>
  The GLFW constants come from the GLFW header: \<^verbatim>\<open>GLFW_RELEASE\<close> is 0, \<^verbatim>\<open>GLFW_PRESS\<close> is 1,
  \<^verbatim>\<open>GLFW_MOUSE_BUTTON_RIGHT\<close> is 1, \<^verbatim>\<open>GLFW_KEY_ESCAPE\<close> is 256 and \<^verbatim>\<open>GLFW_KEY_UNKNOWN\<close> is -1.
  The C type \<^verbatim>\<open>int\<close> of the callback arguments is a 32-bit word, read as a signed value with sint.
\<close>

type_synonym c_int = "32 word"

definition GLFW_RELEASE :: c_int where "GLFW_RELEASE = 0"
definition GLFW_PRESS :: c_int where "GLFW_PRESS = 1"
definition GLFW_MOUSE_BUTTON_RIGHT :: c_int where "GLFW_MOUSE_BUTTON_RIGHT = 1"
definition GLFW_KEY_ESCAPE :: c_int where "GLFW_KEY_ESCAPE = 256"
definition GLFW_KEY_UNKNOWN :: c_int where "GLFW_KEY_UNKNOWN = - 1"

text \<open>\<^verbatim>\<open>mouse_button_callback\<close>, acting on the global camera.\<close>

definition mouse_button_callback :: "Camera \<Rightarrow> c_int \<Rightarrow> c_int \<Rightarrow> c_int \<Rightarrow> Camera" where
  "mouse_button_callback c button action mods =
     (if button = GLFW_MOUSE_BUTTON_RIGHT
      then c\<lparr> mouseDown := (action = GLFW_PRESS), firstMouse := True \<rparr>
      else c)"

text \<open>
  \<^verbatim>\<open>cursor_callback\<close> in the exact reading: the two casts from double to float are the
  identity on reals. The float model of the callback, with the casts, is
  \<^verbatim>\<open>cursor_callbackF\<close> below.
\<close>

definition cursor_callback :: "Camera \<Rightarrow> real \<Rightarrow> real \<Rightarrow> Camera" where
  "cursor_callback c xpos ypos = processMouseMove c xpos ypos"

text \<open>
  \<^verbatim>\<open>key_callback\<close> and the global table \<^verbatim>\<open>bool keys[1024]\<close>. A C array write outside the
  array is undefined behaviour; the model makes it a fault, so that the absence of the
  fault is a property to prove. The window's close request is the flag
  \<^verbatim>\<open>windowShouldClose\<close>.
\<close>

datatype fault = OutOfBounds

record input_state =
  keys :: "bool list"
  windowShouldClose :: bool

definition input_init :: input_state where
  "input_init = \<lparr> keys = replicate 1024 False, windowShouldClose = False \<rparr>"

definition keys_store :: "bool list \<Rightarrow> int \<Rightarrow> bool \<Rightarrow> fault + bool list" where
  "keys_store ks i v =
     (if 0 \<le> i \<and> i < int (length ks) then Inr (ks[nat i := v]) else Inl OutOfBounds)"

definition key_callback ::
  "input_state \<Rightarrow> c_int \<Rightarrow> c_int \<Rightarrow> c_int \<Rightarrow> c_int \<Rightarrow> fault + input_state" where
  "key_callback s key scancode action mods =
     (let s1 = (if key = GLFW_KEY_ESCAPE \<and> action = GLFW_PRESS
                then s\<lparr> windowShouldClose := True \<rparr> else s)
      in if 0 \<le> sint key \<and> sint key < 1024 then
           (if action = GLFW_PRESS then
              (case keys_store (keys s1) (sint key) True of
                 Inl e \<Rightarrow> Inl e | Inr ks \<Rightarrow> Inr (s1\<lparr> keys := ks \<rparr>))
            else if action = GLFW_RELEASE then
              (case keys_store (keys s1) (sint key) False of
                 Inl e \<Rightarrow> Inl e | Inr ks \<Rightarrow> Inr (s1\<lparr> keys := ks \<rparr>))
            else Inr s1)
         else Inr s1)"

section \<open>Float arithmetic\<close>

text \<open>
  A C++ \<^verbatim>\<open>float\<close> is an IEEE 754 binary32 value: a finite number, plus or minus infinity, or
  NaN. The sign of a zero is not modelled. The rounding of an exact result to binary32 and
  the libm functions \<^verbatim>\<open>cosf\<close> and \<^verbatim>\<open>sinf\<close> are the three fields of a \<^verbatim>\<open>machine\<close>, so that each
  theorem says for which machines it holds.
\<close>

datatype fl = Fin real | PInf | NInf | NaN

record machine =
  rnd :: "real \<Rightarrow> real"
  mcos :: "real \<Rightarrow> real"
  msin :: "real \<Rightarrow> real"

text \<open>
  \<^verbatim>\<open>FLT_MAX\<close> is the largest finite binary32 number, (2 - 2^-23) * 2^127. The result of an
  operation on finite operands is its exact value, rounded once; it overflows to an
  infinity when the rounded value lies beyond \<^verbatim>\<open>FLT_MAX\<close>.
\<close>

definition FLT_MAX :: real where
  "FLT_MAX = (2 - 1 / 2 ^ 23) * 2 ^ 127"

definition fl_result :: "machine \<Rightarrow> real \<Rightarrow> fl" where
  "fl_result M x =
     (let y = rnd M x
      in if y > FLT_MAX then PInf else if y < - FLT_MAX then NInf else Fin y)"

text \<open>
  The operations the camera code uses, with the IEEE rules for the special values: a NaN
  operand gives NaN, infinity minus infinity and zero times infinity are NaN, a comparison
  with a NaN operand is false, and the cosine and sine of an infinity are NaN.
  \<^verbatim>\<open>cast_float\<close> is the conversion \<^verbatim>\<open>(float)x\<close> of a double: a finite double is rounded to binary32
  and overflows like any other result, so that \<^verbatim>\<open>(float)1e39\<close> is plus infinity.
\<close>

fun fl_neg :: "fl \<Rightarrow> fl" where
  "fl_neg (Fin x) = Fin (- x)"
| "fl_neg PInf = NInf"
| "fl_neg NInf = PInf"
| "fl_neg NaN = NaN"

fun fl_add :: "machine \<Rightarrow> fl \<Rightarrow> fl \<Rightarrow> fl" where
  "fl_add M (Fin x) (Fin y) = fl_result M (x + y)"
| "fl_add M NaN b = NaN"
| "fl_add M a NaN = NaN"
| "fl_add M PInf NInf = NaN"
| "fl_add M NInf PInf = NaN"
| "fl_add M PInf b = PInf"
| "fl_add M a PInf = PInf"
| "fl_add M NInf b = NInf"
| "fl_add M a NInf = NInf"

definition fl_sub :: "machine \<Rightarrow> fl \<Rightarrow> fl \<Rightarrow> fl" where
  "fl_sub M a b = fl_add M a (fl_neg b)"

text \<open>The infinity of the given sign.\<close>

definition fl_inf :: "bool \<Rightarrow> fl" where
  "fl_inf positive = (if positive then PInf else NInf)"

fun fl_mul :: "machine \<Rightarrow> fl \<Rightarrow> fl \<Rightarrow> fl" where
  "fl_mul M (Fin x) (Fin y) = fl_result M (x * y)"
| "fl_mul M NaN b = NaN"
| "fl_mul M a NaN = NaN"
| "fl_mul M PInf (Fin y) = (if y = 0 then NaN else fl_inf (0 < y))"
| "fl_mul M NInf (Fin y) = (if y = 0 then NaN else fl_inf (y < 0))"
| "fl_mul M (Fin x) PInf = (if x = 0 then NaN else fl_inf (0 < x))"
| "fl_mul M (Fin x) NInf = (if x = 0 then NaN else fl_inf (x < 0))"
| "fl_mul M PInf PInf = PInf"
| "fl_mul M NInf NInf = PInf"
| "fl_mul M PInf NInf = NInf"
| "fl_mul M NInf PInf = NInf"

fun fl_div :: "machine \<Rightarrow> fl \<Rightarrow> fl \<Rightarrow> fl" where
  "fl_div M (Fin x) (Fin y) =
     (if y = 0 then (if x = 0 then NaN else fl_inf (0 < x)) else fl_result M (x / y))"
| "fl_div M NaN b = NaN"
| "fl_div M a NaN = NaN"
| "fl_div M (Fin x) PInf = Fin 0"
| "fl_div M (Fin x) NInf = Fin 0"
| "fl_div M PInf (Fin y) = fl_inf (0 \<le> y)"
| "fl_div M NInf (Fin y) = fl_inf (y < 0)"
| "fl_div M a b = NaN"

fun fl_sqrt :: "machine \<Rightarrow> fl \<Rightarrow> fl" where
  "fl_sqrt M (Fin x) = (if x < 0 then NaN else fl_result M (sqrt x))"
| "fl_sqrt M PInf = PInf"
| "fl_sqrt M NInf = NaN"
| "fl_sqrt M NaN = NaN"

fun fl_cos :: "machine \<Rightarrow> fl \<Rightarrow> fl" where
  "fl_cos M (Fin x) = Fin (mcos M x)"
| "fl_cos M a = NaN"

fun fl_sin :: "machine \<Rightarrow> fl \<Rightarrow> fl" where
  "fl_sin M (Fin x) = Fin (msin M x)"
| "fl_sin M a = NaN"

fun fl_less :: "fl \<Rightarrow> fl \<Rightarrow> bool" where
  "fl_less (Fin x) (Fin y) = (x < y)"
| "fl_less NaN b = False"
| "fl_less a NaN = False"
| "fl_less NInf NInf = False"
| "fl_less NInf b = True"
| "fl_less PInf b = False"
| "fl_less (Fin x) PInf = True"
| "fl_less (Fin x) NInf = False"

fun cast_float :: "machine \<Rightarrow> fl \<Rightarrow> fl" where
  "cast_float M (Fin x) = fl_result M x"
| "cast_float M a = a"

text \<open>
  \<^verbatim>\<open>glm::vec3\<close> and the GLM helpers over floats. The factor of \<^verbatim>\<open>glm::radians\<close> is the binary32
  number nearest to pi/180, which is 9370165 / 2^29.
\<close>

datatype fvec3 = FVec3 (fvec3_x: fl) (fvec3_y: fl) (fvec3_z: fl)

definition radiansF :: "machine \<Rightarrow> fl \<Rightarrow> fl" where
  "radiansF M degrees = fl_mul M degrees (Fin (9370165 / 536870912))"

definition dotF :: "machine \<Rightarrow> fvec3 \<Rightarrow> fvec3 \<Rightarrow> fl" where
  "dotF M a b =
     fl_add M (fl_add M (fl_mul M (fvec3_x a) (fvec3_x b)) (fl_mul M (fvec3_y a) (fvec3_y b)))
              (fl_mul M (fvec3_z a) (fvec3_z b))"

definition inversesqrtF :: "machine \<Rightarrow> fl \<Rightarrow> fl" where
  "inversesqrtF M x = fl_div M (Fin 1) (fl_sqrt M x)"

definition scaleF :: "machine \<Rightarrow> fvec3 \<Rightarrow> fl \<Rightarrow> fvec3" where
  "scaleF M v k = FVec3 (fl_mul M (fvec3_x v) k) (fl_mul M (fvec3_y v) k) (fl_mul M (fvec3_z v) k)"

definition normalizeF :: "machine \<Rightarrow> fvec3 \<Rightarrow> fvec3" where
  "normalizeF M v = scaleF M v (inversesqrtF M (dotF M v v))"

text \<open>
  \<^verbatim>\<open>struct Camera\<close> and \<^verbatim>\<open>Camera::processMouseMove\<close> over floats, statement by statement as in
  the source; a name carries the suffix F where the exact reading above has taken the
  name of the source. The literal \<^verbatim>\<open>0.18f\<close> is the binary32 number 12079596 / 2^26. The test
  \<^verbatim>\<open>pitch > 89.0f\<close> is \<^verbatim>\<open>fl_less (Fin 89) pitch\<close>.
\<close>

record CameraF =
  posF :: fvec3
  frontF :: fvec3
  upF :: fvec3
  yawF :: fl
  pitchF :: fl
  fovF :: fl
  lastXF :: fl
  lastYF :: fl
  firstMouseF :: bool
  mouseDownF :: bool

definition camera_initF :: CameraF where
  "camera_initF = \<lparr> posF = FVec3 (Fin 0) (Fin 1.5) (Fin 10),
     frontF = FVec3 (Fin 0) (Fin 0) (Fin (- 1)), upF = FVec3 (Fin 0) (Fin 1) (Fin 0),
     yawF = Fin (- 90), pitchF = Fin (- 10), fovF = Fin 45, lastXF = Fin 400, lastYF = Fin 300,
     firstMouseF = True, mouseDownF = False \<rparr>"

definition processMouseMoveF :: "machine \<Rightarrow> CameraF \<Rightarrow> fl \<Rightarrow> fl \<Rightarrow> CameraF" where
  "processMouseMoveF M c xpos ypos =
     (if \<not> mouseDownF c then c\<lparr> lastXF := xpos, lastYF := ypos \<rparr>
      else
        let xoffset = fl_sub M xpos (lastXF c);
            yoffset = fl_sub M (lastYF c) ypos;
            c1 = c\<lparr> lastXF := xpos, lastYF := ypos \<rparr>;
            sensitivity = Fin (12079596 / 67108864);
            xoffset = fl_mul M xoffset sensitivity;
            yoffset = fl_mul M yoffset sensitivity;
            c2 = c1\<lparr> yawF := fl_add M (yawF c1) xoffset, pitchF := fl_add M (pitchF c1) yoffset \<rparr>;
            c3 = (if fl_less (Fin 89) (pitchF c2) then c2\<lparr> pitchF := Fin 89 \<rparr> else c2);
            c4 = (if fl_less (pitchF c3) (Fin (- 89)) then c3\<lparr> pitchF := Fin (- 89) \<rparr> else c3);
            dir = FVec3 (fl_mul M (fl_cos M (radiansF M (yawF c4)))
                                  (fl_cos M (radiansF M (pitchF c4))))
                        (fl_sin M (radiansF M (pitchF c4)))
                        (fl_mul M (fl_sin M (radiansF M (yawF c4)))
                                  (fl_cos M (radiansF M (pitchF c4))))
        in c4\<lparr> frontF := normalizeF M dir \<rparr>)"

text \<open>
  \<^verbatim>\<open>cursor_callback\<close> and \<^verbatim>\<open>scroll_callback\<close> over floats. Their arguments are doubles, which
  the callbacks cast to float: the two tests on the field of view are two separate
  statements after the subtraction, in source order.
\<close>

definition cursor_callbackF :: "machine \<Rightarrow> CameraF \<Rightarrow> fl \<Rightarrow> fl \<Rightarrow> CameraF" where
  "cursor_callbackF M c xpos ypos = processMouseMoveF M c (cast_float M xpos) (cast_float M ypos)"

definition scroll_callback :: "machine \<Rightarrow> CameraF \<Rightarrow> fl \<Rightarrow> fl \<Rightarrow> CameraF" where
  "scroll_callback M c xoffset yoffset =
     (let c1 = c\<lparr> fovF := fl_sub M (fovF c) (cast_float M yoffset) \<rparr>;
          c2 = (if fl_less (fovF c1) (Fin 15) then c1\<lparr> fovF := Fin 15 \<rparr> else c1)
      in (if fl_less (Fin 90) (fovF c2) then c2\<lparr> fovF := Fin 90 \<rparr> else c2))"

text \<open>A float that is a finite number, and a float that is a finite number of an interval.\<close>

definition is_fin :: "fl \<Rightarrow> bool" where
  "is_fin a = (case a of Fin x \<Rightarrow> True | _ \<Rightarrow> False)"

definition in_range :: "real \<Rightarrow> real \<Rightarrow> fl \<Rightarrow> bool" where
  "in_range lo hi a = (case a of Fin x \<Rightarrow> lo \<le> x \<and> x \<le> hi | _ \<Rightarrow> False)"

text \<open>
  The binary32 machine. \<^verbatim>\<open>round_binary32\<close> rounds a real number to the nearest number of the
  form k * 2^(e - 23), where e is the binary exponent of the number and at least -126
  (below it the spacing is that of the subnormal numbers), a tie going to the even k. Its
  \<^verbatim>\<open>cosf\<close> and \<^verbatim>\<open>sinf\<close> are the correctly rounded cosine and sine.
\<close>

definition round_half_even :: "real \<Rightarrow> int" where
  "round_half_even r =
     (let f = \<lfloor>r\<rfloor>
      in if r - of_int f < 1 / 2 then f
         else if 1 / 2 < r - of_int f then f + 1
         else if even f then f else f + 1)"

definition binary32_exponent :: "real \<Rightarrow> int" where
  "binary32_exponent x = max \<lfloor>log 2 \<bar>x\<bar>\<rfloor> (- 126)"

definition binary32_ulp :: "real \<Rightarrow> real" where
  "binary32_ulp x = 2 powr of_int (binary32_exponent x - 23)"

definition round_binary32 :: "real \<Rightarrow> real" where
  "round_binary32 x =
     (if x = 0 then 0 else of_int (round_half_even (x / binary32_ulp x)) * binary32_ulp x)"

definition binary32_machine :: machine where
  "binary32_machine = \<lparr> rnd = round_binary32,
     mcos = (\<lambda>x. round_binary32 (cos x)), msin = (\<lambda>x. round_binary32 (sin x)) \<rparr>"

text \<open>
  What the property of the front vector needs from a machine: a result of magnitude at
  most 2 is rounded with an error of at most 2^-22, a result in the finite range stays in
  it, and \<^verbatim>\<open>cosf\<close> and \<^verbatim>\<open>sinf\<close> are within 1/128 of the cosine and the sine.
\<close>

definition machine_ok :: "machine \<Rightarrow> bool" where
  "machine_ok M \<longleftrightarrow>
     (\<forall>x. \<bar>x\<bar> \<le> 2 \<longrightarrow> \<bar>rnd M x - x\<bar> \<le> 1 / 2 ^ 22)
   \<and> (\<forall>x. \<bar>x\<bar> \<le> FLT_MAX \<longrightarrow> \<bar>rnd M x\<bar> \<le> FLT_MAX)
   \<and> (\<forall>x. \<bar>mcos M x - cos x\<bar> \<le> 1 / 128 \<and> \<bar>msin M x - sin x\<bar> \<le> 1 / 128)"

section \<open>The model transform of the geometry pass\<close>

text \<open>
  GLM matrices are column-major: \<^verbatim>\<open>m[i]\<close> is column i. \<^verbatim>\<open>glm::scale\<close>, \<^verbatim>\<open>glm::translate\<close> and
  \<^verbatim>\<open>glm::rotate\<close> are library code, written out here from their GLM definitions: each
  multiplies the given matrix on the right by the elementary transform.
\<close>

datatype vec4 = Vec4 (vec4_x: real) (vec4_y: real) (vec4_z: real) (vec4_w: real)

datatype mat4 = Mat4 (col0: vec4) (col1: vec4) (col2: vec4) (col3: vec4)

definition vec4_add :: "vec4 \<Rightarrow> vec4 \<Rightarrow> vec4" where
  "vec4_add a b = Vec4 (vec4_x a + vec4_x b) (vec4_y a + vec4_y b)
                       (vec4_z a + vec4_z b) (vec4_w a + vec4_w b)"

definition vec4_scale :: "vec4 \<Rightarrow> real \<Rightarrow> vec4" where
  "vec4_scale v k = Vec4 (vec4_x v * k) (vec4_y v * k) (vec4_z v * k) (vec4_w v * k)"

definition mat4_identity :: mat4 where
  "mat4_identity = Mat4 (Vec4 1 0 0 0) (Vec4 0 1 0 0) (Vec4 0 0 1 0) (Vec4 0 0 0 1)"

definition glm_scale :: "mat4 \<Rightarrow> vec3 \<Rightarrow> mat4" where
  "glm_scale m v = Mat4 (vec4_scale (col0 m) (vec3_x v)) (vec4_scale (col1 m) (vec3_y v))
                        (vec4_scale (col2 m) (vec3_z v)) (col3 m)"

definition glm_translate :: "mat4 \<Rightarrow> vec3 \<Rightarrow> mat4" where
  "glm_translate m v =
     Mat4 (col0 m) (col1 m) (col2 m)
          (vec4_add (vec4_add (vec4_add (vec4_scale (col0 m) (vec3_x v))
                                        (vec4_scale (col1 m) (vec3_y v)))
                              (vec4_scale (col2 m) (vec3_z v)))
                    (col3 m))"

definition glm_rotate :: "mat4 \<Rightarrow> real \<Rightarrow> vec3 \<Rightarrow> mat4" where
  "glm_rotate m angle v =
     (let c = cos angle; s = sin angle;
          axis = normalize3 v;
          temp = scale3 axis (1 - c);
          r00 = c + vec3_x temp * vec3_x axis;
          r01 = vec3_x temp * vec3_y axis + s * vec3_z axis;
          r02 = vec3_x temp * vec3_z axis - s * vec3_y axis;
          r10 = vec3_y temp * vec3_x axis - s * vec3_z axis;
          r11 = c + vec3_y temp * vec3_y axis;
          r12 = vec3_y temp * vec3_z axis + s * vec3_x axis;
          r20 = vec3_z temp * vec3_x axis + s * vec3_y axis;
          r21 = vec3_z temp * vec3_y axis - s * vec3_x axis;
          r22 = c + vec3_z temp * vec3_z axis
      in Mat4 (vec4_add (vec4_add (vec4_scale (col0 m) r00) (vec4_scale (col1 m) r01))
                        (vec4_scale (col2 m) r02))
              (vec4_add (vec4_add (vec4_scale (col0 m) r10) (vec4_scale (col1 m) r11))
                        (vec4_scale (col2 m) r12))
              (vec4_add (vec4_add (vec4_scale (col0 m) r20) (vec4_scale (col1 m) r21))
                        (vec4_scale (col2 m) r22))
              (col3 m))"

text \<open>The walking parameters (file-scope constants) and the local \<^verbatim>\<open>ScaleFactor\<close>.\<close>

definition walkSpeed :: real where "walkSpeed = 2"
definition walkRange :: real where "walkRange = 4"
definition walkAxis :: real where "walkAxis = 0"
definition ScaleFactor :: real where "ScaleFactor = 3"

text \<open>
  The three statements of the render loop that build \<^verbatim>\<open>model_m\<close> from the frame time,
  in source order: scale, then translate, then rotate, each applied to the matrix built
  so far.
\<close>

definition model_m :: "real \<Rightarrow> mat4" where
  "model_m currentFrame =
     (let m0 = mat4_identity;
          m1 = glm_scale m0 (Vec3 ScaleFactor ScaleFactor ScaleFactor);
          walkPos = cos (currentFrame * walkSpeed) * walkRange;
          m2 = glm_translate m1 (Vec3 walkPos walkAxis 0)
      in glm_rotate m2 (currentFrame * radians 60) (Vec3 0 1 0))"

text \<open>
  Modelled from the spec: the vertex shader \<^verbatim>\<open>shaders/pbr.vs\<close> is not among the sources.
  The spec's "model transform applied to a mesh vertex" is taken as the product of the
  model matrix with the homogeneous position (x, y, z, 1).
\<close>

definition transform_point :: "mat4 \<Rightarrow> vec3 \<Rightarrow> vec4" where
  "transform_point m p =
     vec4_add (vec4_add (vec4_add (vec4_scale (col0 m) (vec3_x p))
                                  (vec4_scale (col1 m) (vec3_y p)))
                        (vec4_scale (col2 m) (vec3_z p)))
              (vec4_scale (col3 m) 1)"

section \<open>The OpenGL objects the program creates and binds\<close>

text \<open>
  The state of the GL context, as far as the program's resource graph uses it. Object
  names are natural numbers and 0 is the name of no object (and of the window's
  framebuffer). \<^verbatim>\<open>glGenTextures\<close>, \<^verbatim>\<open>glGenFramebuffers\<close>, \<^verbatim>\<open>glGenVertexArrays\<close> and
  \<^verbatim>\<open>glCreateProgram\<close> return names that are not zero and not in use; the model hands out
  1, 2, 3, ... in each name space. Integer uniforms are stored by program and uniform
  name, which is what \<^verbatim>\<open>glUniform1i(glGetUniformLocation(p, name), v)\<close> sets when \<^verbatim>\<open>p\<close> is the
  program in use, as it is at every such call of the source. Every \<^verbatim>\<open>glDrawElements\<close> and
  \<^verbatim>\<open>glDrawArrays\<close> appends to \<^verbatim>\<open>draws\<close> a record of what the draw can see: the program, the
  framebuffer written, the texture bound to each unit and the program's integer uniforms.
  Clears, the viewport, vertex data, float and matrix uniforms, the depth renderbuffer
  and the messages written to the error stream are outside the model.
\<close>

datatype gl_enum =
  GL_RGB | GL_RGBA | GL_RGB8 | GL_RGBA8 | GL_SRGB8 | GL_SRGB8_ALPHA8 | GL_RGBA16F
  | GL_UNSIGNED_BYTE | GL_FLOAT
  | GL_TEXTURE_WRAP_S | GL_TEXTURE_WRAP_T | GL_TEXTURE_MIN_FILTER | GL_TEXTURE_MAG_FILTER
  | GL_REPEAT | GL_LINEAR | GL_LINEAR_MIPMAP_LINEAR

record tex_image =
  img_internal :: gl_enum
  img_width :: int
  img_height :: int
  img_format :: gl_enum
  img_type :: gl_enum
  img_data :: "8 word list option"

record draw_call =
  draw_program :: nat
  draw_framebuffer :: nat
  draw_textures :: "nat \<Rightarrow> nat"
  draw_uniforms :: "string \<Rightarrow> int option"

record gl_state =
  tex_names :: nat
  fbo_names :: nat
  vao_names :: nat
  prog_names :: nat
  framebuffer_binding :: nat
  active_texture :: nat
  texture_binding :: "nat \<Rightarrow> nat"
  tex_level0 :: "nat \<Rightarrow> tex_image option"
  tex_mipmap :: "nat \<Rightarrow> bool"
  tex_parameter :: "nat \<Rightarrow> gl_enum \<Rightarrow> gl_enum option"
  color_attachment :: "nat \<Rightarrow> nat \<Rightarrow> nat"
  current_program :: nat
  uniforms :: "nat \<Rightarrow> string \<Rightarrow> int option"
  draws :: "draw_call list"

text \<open>The context right after it is created: no object, nothing bound, unit 0 active.\<close>

definition gl_init :: gl_state where
  "gl_init = \<lparr> tex_names = 0, fbo_names = 0, vao_names = 0, prog_names = 0,
     framebuffer_binding = 0, active_texture = 0, texture_binding = (\<lambda>u. 0),
     tex_level0 = (\<lambda>t. None), tex_mipmap = (\<lambda>t. False), tex_parameter = (\<lambda>t p. None),
     color_attachment = (\<lambda>f a. 0), current_program = 0, uniforms = (\<lambda>p n. None),
     draws = [] \<rparr>"

definition glGenTextures :: "nat \<Rightarrow> gl_state \<Rightarrow> nat list \<times> gl_state" where
  "glGenTextures n g =
     (map (\<lambda>k. tex_names g + Suc k) [0..<n], g\<lparr> tex_names := tex_names g + n \<rparr>)"

definition glGenFramebuffers :: "nat \<Rightarrow> gl_state \<Rightarrow> nat list \<times> gl_state" where
  "glGenFramebuffers n g =
     (map (\<lambda>k. fbo_names g + Suc k) [0..<n], g\<lparr> fbo_names := fbo_names g + n \<rparr>)"

definition glGenVertexArrays :: "nat \<Rightarrow> gl_state \<Rightarrow> nat list \<times> gl_state" where
  "glGenVertexArrays n g =
     (map (\<lambda>k. vao_names g + Suc k) [0..<n], g\<lparr> vao_names := vao_names g + n \<rparr>)"

definition glCreateProgram :: "gl_state \<Rightarrow> nat \<times> gl_state" where
  "glCreateProgram g = (Suc (prog_names g), g\<lparr> prog_names := Suc (prog_names g) \<rparr>)"

definition glBindFramebuffer :: "nat \<Rightarrow> gl_state \<Rightarrow> gl_state" where
  "glBindFramebuffer f g = g\<lparr> framebuffer_binding := f \<rparr>"

definition glActiveTexture :: "nat \<Rightarrow> gl_state \<Rightarrow> gl_state" where
  "glActiveTexture u g = g\<lparr> active_texture := u \<rparr>"

definition glBindTexture :: "nat \<Rightarrow> gl_state \<Rightarrow> gl_state" where
  "glBindTexture t g = g\<lparr> texture_binding := (texture_binding g)(active_texture g := t) \<rparr>"

text \<open>The texture a \<^verbatim>\<open>GL_TEXTURE_2D\<close> call acts on: the one bound to the active unit.\<close>

definition bound_texture :: "gl_state \<Rightarrow> nat" where
  "bound_texture g = texture_binding g (active_texture g)"

definition glTexImage2D ::
  "gl_enum \<Rightarrow> int \<Rightarrow> int \<Rightarrow> gl_enum \<Rightarrow> gl_enum \<Rightarrow> 8 word list option \<Rightarrow> gl_state \<Rightarrow> gl_state" where
  "glTexImage2D internal w h format type data g =
     g\<lparr> tex_level0 := (tex_level0 g)(bound_texture g :=
          Some \<lparr> img_internal = internal, img_width = w, img_height = h,
                 img_format = format, img_type = type, img_data = data \<rparr>) \<rparr>"

definition glGenerateMipmap :: "gl_state \<Rightarrow> gl_state" where
  "glGenerateMipmap g = g\<lparr> tex_mipmap := (tex_mipmap g)(bound_texture g := True) \<rparr>"

definition glTexParameteri :: "gl_enum \<Rightarrow> gl_enum \<Rightarrow> gl_state \<Rightarrow> gl_state" where
  "glTexParameteri pname v g =
     g\<lparr> tex_parameter := (tex_parameter g)(bound_texture g :=
          (tex_parameter g (bound_texture g))(pname \<mapsto> v)) \<rparr>"

definition glFramebufferTexture2D :: "nat \<Rightarrow> nat \<Rightarrow> gl_state \<Rightarrow> gl_state" where
  "glFramebufferTexture2D attachment t g =
     g\<lparr> color_attachment := (color_attachment g)(framebuffer_binding g :=
          (color_attachment g (framebuffer_binding g))(attachment := t)) \<rparr>"

definition glUseProgram :: "nat \<Rightarrow> gl_state \<Rightarrow> gl_state" where
  "glUseProgram p g = g\<lparr> current_program := p \<rparr>"

definition glUniform1i :: "string \<Rightarrow> int \<Rightarrow> gl_state \<Rightarrow> gl_state" where
  "glUniform1i name v g =
     g\<lparr> uniforms := (uniforms g)(current_program g :=
          (uniforms g (current_program g))(name \<mapsto> v)) \<rparr>"

definition glDraw :: "gl_state \<Rightarrow> gl_state" where
  "glDraw g =
     g\<lparr> draws := draws g @
          [\<lparr> draw_program = current_program g, draw_framebuffer = framebuffer_binding g,
             draw_textures = texture_binding g,
             draw_uniforms = uniforms g (current_program g) \<rparr>] \<rparr>"

section \<open>Texture loading\<close>

text \<open>
  \<^verbatim>\<open>stbi_load\<close> is the image decoder of the stb library: for a path it gives the decoded
  image (width, height, channel count, bytes) or fails, on a missing file as on a file
  it cannot decode. The decoder is a parameter of the model. Every call of the source
  leaves \<^verbatim>\<open>flip\<close> at its default, so the flip flag is not a parameter.
\<close>

record stb_image =
  stb_w :: int
  stb_h :: int
  stb_c :: int
  stb_data :: "8 word list"

type_synonym decoder = "string \<Rightarrow> stb_image option"

text \<open>\<^verbatim>\<open>loadTexture\<close>: 0 when the decoder fails, else the name of a new texture.\<close>

definition loadTexture :: "decoder \<Rightarrow> string \<Rightarrow> bool \<Rightarrow> gl_state \<Rightarrow> nat \<times> gl_state" where
  "loadTexture stbi_load path srgb g =
     (case stbi_load path of
        None \<Rightarrow> (0, g)
      | Some img \<Rightarrow>
          let internal = (if stb_c img = 4 then (if srgb then GL_SRGB8_ALPHA8 else GL_RGBA8)
                          else (if srgb then GL_SRGB8 else GL_RGB8));
              format = (if stb_c img = 4 then GL_RGBA else GL_RGB);
              (names, g1) = glGenTextures 1 g;
              tex = names ! 0;
              g2 = glBindTexture tex g1;
              g3 = glTexImage2D internal (stb_w img) (stb_h img) format GL_UNSIGNED_BYTE
                     (Some (stb_data img)) g2;
              g4 = glGenerateMipmap g3;
              g5 = glTexParameteri GL_TEXTURE_WRAP_S GL_REPEAT g4;
              g6 = glTexParameteri GL_TEXTURE_WRAP_T GL_REPEAT g5;
              g7 = glTexParameteri GL_TEXTURE_MIN_FILTER GL_LINEAR_MIPMAP_LINEAR g6;
              g8 = glTexParameteri GL_TEXTURE_MAG_FILTER GL_LINEAR g7
          in (tex, g8))"

text \<open>The 1x1 white texture that \<^verbatim>\<open>main\<close> builds when the albedo texture did not load.\<close>

definition white_pixel :: tex_image where
  "white_pixel = \<lparr> img_internal = GL_RGB, img_width = 1, img_height = 1,
     img_format = GL_RGB, img_type = GL_UNSIGNED_BYTE, img_data = Some [255, 255, 255] \<rparr>"

record materials =
  texAlbedo :: nat
  texNormal :: nat
  texMetallic :: nat
  texRoughness :: nat
  texAO :: nat

text \<open>The texture section of \<^verbatim>\<open>main\<close>: the albedo texture with its fallback, then the four others.\<close>

definition load_materials :: "decoder \<Rightarrow> gl_state \<Rightarrow> materials \<times> gl_state" where
  "load_materials stbi_load g0 =
     (let (albedo, g1) = loadTexture stbi_load ''resources/albedo.png'' False g0;
          (albedo, g2) =
             (if albedo = 0 then
                let white = [255, 255, 255];
                    (names, ga) = glGenTextures 1 g1;
                    gb = glBindTexture (names ! 0) ga;
                    gc = glTexImage2D GL_RGB 1 1 GL_RGB GL_UNSIGNED_BYTE (Some white) gb;
                    gd = glTexParameteri GL_TEXTURE_MIN_FILTER GL_LINEAR gc;
                    ge = glTexParameteri GL_TEXTURE_MAG_FILTER GL_LINEAR gd
                in (names ! 0, ge)
              else (albedo, g1));
          (normal, g3) = loadTexture stbi_load ''resources/normal.png'' False g2;
          (metallic, g4) = loadTexture stbi_load ''resources/metallic.png'' False g3;
          (roughness, g5) = loadTexture stbi_load ''resources/roughness.png'' False g4;
          (ao, g6) = loadTexture stbi_load ''resources/ao.png'' False g5
      in (\<lparr> texAlbedo = albedo, texNormal = normal, texMetallic = metallic,
            texRoughness = roughness, texAO = ao \<rparr>, g6))"

section \<open>The framebuffer graph (struct BloomFBO)\<close>

record BloomFBO =
  hdrFBO :: nat
  colorBuffers :: "nat list"
  pingpongFBO :: "nat list"
  pingpongColorbuffers :: "nat list"
  width :: int
  height :: int

text \<open>The body of the first loop of \<^verbatim>\<open>BloomFBO::init\<close>: colour surface i of the HDR target.\<close>

definition init_hdr_surface :: "nat list \<Rightarrow> int \<Rightarrow> int \<Rightarrow> nat \<Rightarrow> gl_state \<Rightarrow> gl_state" where
  "init_hdr_surface cb w h i g =
     (let g1 = glBindTexture (cb ! i) g;
          g2 = glTexImage2D GL_RGBA16F w h GL_RGBA GL_FLOAT None g1;
          g3 = glTexParameteri GL_TEXTURE_MIN_FILTER GL_LINEAR g2;
          g4 = glTexParameteri GL_TEXTURE_MAG_FILTER GL_LINEAR g3
      in glFramebufferTexture2D i (cb ! i) g4)"

text \<open>The body of the second loop: ping-pong target i with its one colour surface.\<close>

definition init_pingpong_surface ::
  "nat list \<Rightarrow> nat list \<Rightarrow> int \<Rightarrow> int \<Rightarrow> nat \<Rightarrow> gl_state \<Rightarrow> gl_state" where
  "init_pingpong_surface pf pc w h i g =
     (let g1 = glBindFramebuffer (pf ! i) g;
          g2 = glBindTexture (pc ! i) g1;
          g3 = glTexImage2D GL_RGBA16F w h GL_RGBA GL_FLOAT None g2;
          g4 = glTexParameteri GL_TEXTURE_MIN_FILTER GL_LINEAR g3;
          g5 = glTexParameteri GL_TEXTURE_MAG_FILTER GL_LINEAR g4
      in glFramebufferTexture2D 0 (pc ! i) g5)"

definition BloomFBO_init :: "int \<Rightarrow> int \<Rightarrow> gl_state \<Rightarrow> BloomFBO \<times> gl_state" where
  "BloomFBO_init w h g0 =
     (let (fb, g1) = glGenFramebuffers 1 g0;
          g2 = glBindFramebuffer (fb ! 0) g1;
          (cb, g3) = glGenTextures 2 g2;
          g4 = fold (init_hdr_surface cb w h) [0..<2] g3;
          g5 = glBindFramebuffer 0 g4;
          (pf, g6) = glGenFramebuffers 2 g5;
          (pc, g7) = glGenTextures 2 g6;
          g8 = fold (init_pingpong_surface pf pc w h) [0..<2] g7;
          g9 = glBindFramebuffer 0 g8
      in (\<lparr> hdrFBO = fb ! 0, colorBuffers = cb, pingpongFBO = pf,
            pingpongColorbuffers = pc, width = w, height = h \<rparr>, g9))"

section \<open>Start-up: the part of main before the render loop\<close>

text \<open>
  What the outside world answers during start-up: whether GLFW initialises, whether the
  window is created, whether GLAD loads, whether the mesh file parses (and with how many
  indices), and the image decoder.
\<close>

record environment =
  glfwInit_ok :: bool
  window_created :: bool
  glad_loaded :: bool
  obj_indices :: "nat option"
  stbi_load :: decoder

record Mesh =
  vao :: nat
  count :: nat

record programs =
  pbrProg :: nat
  brightProg :: nat
  blurProg :: nat
  combineProg :: nat

record app =
  progs :: programs
  mesh :: Mesh
  mats :: materials
  bloomFBO :: BloomFBO

definition SCR_W :: int where "SCR_W = 2560"
definition SCR_H :: int where "SCR_H = 1440"

text \<open>
  \<^verbatim>\<open>loadObjToMesh\<close>: tinyobjloader parses the file; on failure the mesh keeps its
  initialisers (\<^verbatim>\<open>vao = 0\<close>), on success a vertex array is generated and the index
  count stored. The vertex data itself is outside the model.
\<close>

definition loadObjToMesh :: "nat option \<Rightarrow> gl_state \<Rightarrow> (bool \<times> Mesh) \<times> gl_state" where
  "loadObjToMesh parsed g =
     (case parsed of
        None \<Rightarrow> ((False, \<lparr> vao = 0, count = 0 \<rparr>), g)
      | Some n \<Rightarrow>
          let (names, g1) = glGenVertexArrays 1 g
          in ((True, \<lparr> vao = names ! 0, count = n \<rparr>), g1))"

text \<open>\<^verbatim>\<open>initQuad\<close>: the vertex array of the screen quad.\<close>

definition initQuad :: "gl_state \<Rightarrow> nat \<times> gl_state" where
  "initQuad g = (let (names, g1) = glGenVertexArrays 1 g in (names ! 0, g1))"

text \<open>
  \<^verbatim>\<open>createProgram\<close> returns the new program's name whether or not the shaders compiled
  and linked; failures are only logged.
\<close>

definition createProgram :: "gl_state \<Rightarrow> nat \<times> gl_state" where
  "createProgram g = glCreateProgram g"

text \<open>The sampler assignments under the comment "default uniforms binding".\<close>

definition bind_default_uniforms :: "programs \<Rightarrow> gl_state \<Rightarrow> gl_state" where
  "bind_default_uniforms P g =
     (let g1 = glUseProgram (pbrProg P) g;
          g2 = glUniform1i ''albedoMap'' 0 g1;
          g3 = glUniform1i ''normalMap'' 1 g2;
          g4 = glUniform1i ''metallicMap'' 2 g3;
          g5 = glUniform1i ''roughnessMap'' 3 g4;
          g6 = glUniform1i ''aoMap'' 4 g5;
          g7 = glUniform1i ''scene'' 0 (glUseProgram (brightProg P) g6);
          g8 = glUniform1i ''image'' 0 (glUseProgram (blurProg P) g7);
          g9 = glUniform1i ''scene'' 0 (glUseProgram (combineProg P) g8)
      in glUniform1i ''bloomBlur'' 1 (glUseProgram (combineProg P) g9))"

text \<open>
  \<^verbatim>\<open>main\<close> up to the render loop. The three fatal checks return -1; nothing after them
  returns early.
\<close>

definition main_setup :: "environment \<Rightarrow> int + (app \<times> gl_state)" where
  "main_setup env =
     (if \<not> glfwInit_ok env then Inl (- 1)
      else if \<not> window_created env then Inl (- 1)
      else if \<not> glad_loaded env then Inl (- 1)
      else
        let (pbr, g1) = createProgram gl_init;
            (bright, g2) = createProgram g1;
            (blur, g3) = createProgram g2;
            (combine, g4) = createProgram g3;
            P = \<lparr> pbrProg = pbr, brightProg = bright, blurProg = blur, combineProg = combine \<rparr>;
            ((ok, m), g5) = loadObjToMesh (obj_indices env) g4;
            (T, g6) = load_materials (stbi_load env) g5;
            (quadVAO, g7) = initQuad g6;
            (B, g8) = BloomFBO_init SCR_W SCR_H g7;
            g9 = bind_default_uniforms P g8
        in Inr (\<lparr> progs = P, mesh = m, mats = T, bloomFBO = B \<rparr>, g9))"

section \<open>One frame of the render loop\<close>

text \<open>
  Pass 1, the geometry pass, as far as the GL objects go: the HDR target is bound, the
  five material textures are bound to units 0 to 4 (a texture that did not load is
  replaced by the albedo texture), and the mesh is drawn when it has a vertex array.
\<close>

definition geometry_pass :: "app \<Rightarrow> gl_state \<Rightarrow> gl_state" where
  "geometry_pass A g =
     (let T = mats A;
          g1 = glBindFramebuffer (hdrFBO (bloomFBO A)) g;
          g2 = glUseProgram (pbrProg (progs A)) g1;
          g3 = glBindTexture (texAlbedo T) (glActiveTexture 0 g2);
          g4 = glBindTexture (if texNormal T \<noteq> 0 then texNormal T else texAlbedo T)
                 (glActiveTexture 1 g3);
          g5 = glBindTexture (if texMetallic T \<noteq> 0 then texMetallic T else texAlbedo T)
                 (glActiveTexture 2 g4);
          g6 = glBindTexture (if texRoughness T \<noteq> 0 then texRoughness T else texAlbedo T)
                 (glActiveTexture 3 g5);
          g7 = glBindTexture (if texAO T \<noteq> 0 then texAO T else texAlbedo T)
                 (glActiveTexture 4 g6);
          g8 = (if vao (mesh A) \<noteq> 0 then glDraw g7 else g7)
      in glBindFramebuffer 0 g8)"

text \<open>Pass 2, the bright-pass extraction into ping-pong target 0.\<close>

definition bright_pass :: "app \<Rightarrow> gl_state \<Rightarrow> gl_state" where
  "bright_pass A g =
     (let g1 = glUseProgram (brightProg (progs A)) g;
          g2 = glBindFramebuffer (pingpongFBO (bloomFBO A) ! 0) g1;
          g3 = glActiveTexture 0 g2;
          g4 = glBindTexture (colorBuffers (bloomFBO A) ! 1) g3;
          g5 = glDraw g4
      in glBindFramebuffer 0 g5)"

text \<open>
  Pass 3, the blur loop. A \<^verbatim>\<open>bool\<close> used as an array index is 0 or 1. The loop state is the
  counter, the flag \<^verbatim>\<open>horizontal\<close> and the GL state.
\<close>

definition blur_iteration :: "app \<Rightarrow> nat \<Rightarrow> bool \<times> gl_state \<Rightarrow> bool \<times> gl_state" where
  "blur_iteration A i hg =
     (let horizontal = fst hg; g = snd hg;
          g1 = glBindFramebuffer (pingpongFBO (bloomFBO A) ! of_bool horizontal) g;
          g2 = glUniform1i ''horizontal'' (if horizontal then 1 else 0) g1;
          g3 = glActiveTexture 0 g2;
          g4 = (if i = 0 then glBindTexture (pingpongColorbuffers (bloomFBO A) ! 0) g3
                else glBindTexture (pingpongColorbuffers (bloomFBO A) ! of_bool (\<not> horizontal)) g3);
          g5 = glDraw g4
      in (\<not> horizontal, g5))"

function blur_loop :: "app \<Rightarrow> nat \<Rightarrow> nat \<Rightarrow> bool \<times> gl_state \<Rightarrow> bool \<times> gl_state" where
  "blur_loop A i blurPasses hg =
     (if i < blurPasses then blur_loop A (i + 1) blurPasses (blur_iteration A i hg) else hg)"
  by pat_completeness auto
termination
  by (relation "measure (\<lambda>(A, i, blurPasses, hg). blurPasses - i)") auto

declare blur_loop.simps [simp del]

text \<open>Pass 4, the composition on the window's framebuffer.\<close>

definition composite_pass :: "app \<Rightarrow> bool \<Rightarrow> gl_state \<Rightarrow> gl_state" where
  "composite_pass A horizontal g =
     (let g1 = glUseProgram (combineProg (progs A)) g;
          g2 = glActiveTexture 0 g1;
          g3 = glBindTexture (colorBuffers (bloomFBO A) ! 0) g2;
          g4 = glActiveTexture 1 g3;
          g5 = glBindTexture (pingpongColorbuffers (bloomFBO A) ! of_bool (\<not> horizontal)) g4
      in glDraw g5)"

text \<open>
  The GL side of one iteration of the render loop, with the number of blur passes as a
  parameter. The draw log is an observation of the model and is started afresh with
  each frame. The source fixes the number of passes at 15.
\<close>

definition render_passes :: "nat \<Rightarrow> app \<Rightarrow> gl_state \<Rightarrow> gl_state" where
  "render_passes blurPasses A g =
     (let g1 = geometry_pass A (g\<lparr> draws := [] \<rparr>);
          g2 = bright_pass A g1;
          horizontal = True;
          g3 = glUseProgram (blurProg (progs A)) g2;
          (horizontal, g4) = blur_loop A 0 blurPasses (horizontal, g3);
          g5 = glBindFramebuffer 0 g4
      in composite_pass A horizontal g5)"

definition render_frame :: "app \<Rightarrow> gl_state \<Rightarrow> gl_state" where
  "render_frame A g = render_passes 15 A g"

section \<open>Observations used to state the properties\<close>

text \<open>
  The definitions of this section are not code of the program: they name what the
  properties below talk about. \<^verbatim>\<open>pass_draws p g\<close> is the list of logged draws issued with
  program \<^verbatim>\<open>p\<close>, in order. \<^verbatim>\<open>sampled_texture d name\<close> is the texture a draw reads through
  the sampler uniform \<^verbatim>\<open>name\<close>: the texture bound to the unit the uniform holds.
\<close>

definition pass_draws :: "nat \<Rightarrow> gl_state \<Rightarrow> draw_call list" where
  "pass_draws p g = filter (\<lambda>d. draw_program d = p) (draws g)"

definition sampled_texture :: "draw_call \<Rightarrow> string \<Rightarrow> nat option" where
  "sampled_texture d name =
     (case draw_uniforms d name of None \<Rightarrow> None | Some u \<Rightarrow> Some (draw_textures d (nat u)))"

text \<open>
  The closed form of the record that blur iteration j logs, for a loop entered in state
  \<^verbatim>\<open>g\<close> with the flag true at iteration 0 (proved equal to the log in \<^verbatim>\<open>blur_loop_draws\<close>).
\<close>

definition blur_draw :: "app \<Rightarrow> gl_state \<Rightarrow> nat \<Rightarrow> draw_call" where
  "blur_draw A g j =
     \<lparr> draw_program = current_program g,
       draw_framebuffer = pingpongFBO (bloomFBO A) ! of_bool (even j),
       draw_textures = (texture_binding g)(0 :=
          (if j = 0 then pingpongColorbuffers (bloomFBO A) ! 0
           else pingpongColorbuffers (bloomFBO A) ! of_bool (odd j))),
       draw_uniforms =
         (uniforms g (current_program g))(''horizontal'' \<mapsto> (if even j then 1 else 0)) \<rparr>"

text \<open>
  The facts about the objects of start-up that every frame relies on and keeps, with
  \<^verbatim>\<open>n\<close> the number of texture names handed out before the framebuffer graph was built:
  the four programs, the framebuffer graph with its names, the colour attachments, and
  the sampler uniforms of the three post-processing programs.
\<close>

definition frame_inv :: "nat \<Rightarrow> app \<Rightarrow> gl_state \<Rightarrow> bool" where
  "frame_inv n A g \<longleftrightarrow>
     progs A = \<lparr> pbrProg = 1, brightProg = 2, blurProg = 3, combineProg = 4 \<rparr>
   \<and> bloomFBO A = \<lparr> hdrFBO = 1, colorBuffers = [Suc n, Suc (Suc n)], pingpongFBO = [2, 3],
         pingpongColorbuffers = [Suc (Suc (Suc n)), Suc (Suc (Suc (Suc n)))],
         width = SCR_W, height = SCR_H \<rparr>
   \<and> color_attachment g =
        (\<lambda>f a. 0)(1 := (\<lambda>a. 0)(0 := Suc n, 1 := Suc (Suc n)),
                   2 := (\<lambda>a. 0)(0 := Suc (Suc (Suc n))),
                   3 := (\<lambda>a. 0)(0 := Suc (Suc (Suc (Suc n)))))
   \<and> uniforms g 2 ''scene'' = Some 0 \<and> uniforms g 3 ''image'' = Some 0
   \<and> uniforms g 4 ''scene'' = Some 0 \<and> uniforms g 4 ''bloomBlur'' = Some 1"

text \<open>
  Two environments for concrete runs, each with the application record and the GL state
  that start-up returns in it (the right projection of the result, which the lemmas
  \<^verbatim>\<open>no_assets_setup\<close> and \<^verbatim>\<open>albedo_only_setup\<close> show to be a normal return). In the first
  environment no asset file exists. In the second only the albedo image exists: a 2x2
  RGB image of black pixels.
\<close>

definition env_no_assets :: environment where
  "env_no_assets = \<lparr> glfwInit_ok = True, window_created = True, glad_loaded = True,
     obj_indices = None, stbi_load = (\<lambda>path. None) \<rparr>"

definition app_no_assets :: app where
  "app_no_assets = fst (projr (main_setup env_no_assets))"

definition gl_no_assets :: gl_state where
  "gl_no_assets = snd (projr (main_setup env_no_assets))"

definition env_albedo_only :: environment where
  "env_albedo_only = \<lparr> glfwInit_ok = True, window_created = True, glad_loaded = True,
     obj_indices = None,
     stbi_load = (\<lambda>path. if path = ''resources/albedo.png''
                          then Some \<lparr> stb_w = 2, stb_h = 2, stb_c = 3,
                                      stb_data = [0, 0, 0, 0, 0, 0, 0, 0, 0, 0, 0, 0] \<rparr>
                          else None) \<rparr>"

definition app_albedo_only :: app where
  "app_albedo_only = fst (projr (main_setup env_albedo_only))"

definition gl_albedo_only :: gl_state where
  "gl_albedo_only = snd (projr (main_setup env_albedo_only))"

section \<open>Camera lemmas\<close>

text \<open>
  C9. A mouse-move event received while the look-drag is inactive records the cursor
  position in lastX and lastY and changes no other camera field: yaw, pitch, front,
  position, up, field of view and the two flags keep their values.
\<close>

theorem mouse_move_inactive_only_records_position:
  assumes "\<not> mouseDown c"
  shows "processMouseMove c xpos ypos = c\<lparr> lastX := xpos, lastY := ypos \<rparr>
       \<and> lastX (processMouseMove c xpos ypos) = xpos
       \<and> lastY (processMouseMove c xpos ypos) = ypos
       \<and> yaw (processMouseMove c xpos ypos) = yaw c
       \<and> pitch (processMouseMove c xpos ypos) = pitch c
       \<and> front (processMouseMove c xpos ypos) = front c
       \<and> pos (processMouseMove c xpos ypos) = pos c
       \<and> up (processMouseMove c xpos ypos) = up c
       \<and> fov (processMouseMove c xpos ypos) = fov c
       \<and> firstMouse (processMouseMove c xpos ypos) = firstMouse c
       \<and> mouseDown (processMouseMove c xpos ypos) = mouseDown c"
  using assms by (simp add: processMouseMove_def)

theorem mouse_move_inactive_witness:
  "\<not> mouseDown camera_init
   \<and> lastX (processMouseMove camera_init 1500 900) = 1500
   \<and> lastY (processMouseMove camera_init 1500 900) = 900
   \<and> yaw (processMouseMove camera_init 1500 900) = -90
   \<and> pitch (processMouseMove camera_init 1500 900) = -10
   \<and> front (processMouseMove camera_init 1500 900) = Vec3 0 0 (-1)
   \<and> fov (processMouseMove camera_init 1500 900) = 45"
proof -
  have h: "\<not> mouseDown camera_init" by (simp add: camera_init_def)
  show ?thesis
    using h mouse_move_inactive_only_records_position [OF h, of 1500 900]
    by (simp add: camera_init_def)
qed

text \<open>
  C3 (evaluation of the code). A drag starts on the camera as initialised (last
  position 400, 300): the right button is pressed, which sets \<^verbatim>\<open>mouseDown\<close> and \<^verbatim>\<open>firstMouse\<close>;
  the first mouse-move after it, to (500, 200), is not discarded: yaw goes from -90 to
  -72 and pitch from -10 to 8. The flag \<^verbatim>\<open>firstMouse\<close> is set but never read.
\<close>

theorem first_move_after_drag_start_rotates:
  "\<not> mouseDown camera_init
   \<and> mouseDown (mouse_button_callback camera_init GLFW_MOUSE_BUTTON_RIGHT GLFW_PRESS 0)
   \<and> firstMouse (mouse_button_callback camera_init GLFW_MOUSE_BUTTON_RIGHT GLFW_PRESS 0)
   \<and> yaw (mouse_button_callback camera_init GLFW_MOUSE_BUTTON_RIGHT GLFW_PRESS 0) = - 90
   \<and> pitch (mouse_button_callback camera_init GLFW_MOUSE_BUTTON_RIGHT GLFW_PRESS 0) = - 10
   \<and> yaw (cursor_callback
        (mouse_button_callback camera_init GLFW_MOUSE_BUTTON_RIGHT GLFW_PRESS 0) 500 200) = - 72
   \<and> pitch (cursor_callback
        (mouse_button_callback camera_init GLFW_MOUSE_BUTTON_RIGHT GLFW_PRESS 0) 500 200) = 8"
  by (simp add: cursor_callback_def mouse_button_callback_def camera_init_def
      processMouseMove_def Let_def)

subsection \<open>Rounding to binary32\<close>

lemma round_half_even_error: "\<bar>of_int (round_half_even r) - r\<bar> \<le> 1 / 2"
  unfolding round_half_even_def Let_def by auto

lemma round_half_even_bound:
  assumes "\<bar>r\<bar> \<le> of_int n"
  shows "\<bar>round_half_even r\<bar> \<le> n"
proof -
  have lo: "- n \<le> \<lfloor>r\<rfloor>" using assms by (simp add: le_floor_iff abs_le_iff)
  have hi: "\<lfloor>r\<rfloor> \<le> n" using assms by (simp add: floor_le_iff abs_le_iff)
  have hi': "\<not> r - of_int \<lfloor>r\<rfloor> < 1 / 2 \<Longrightarrow> \<lfloor>r\<rfloor> + 1 \<le> n"
  proof -
    assume "\<not> r - of_int \<lfloor>r\<rfloor> < 1 / 2"
    then have "of_int \<lfloor>r\<rfloor> < (of_int n :: real)" using assms by linarith
    then show ?thesis by simp
  qed
  show ?thesis
    unfolding round_half_even_def Let_def using lo hi hi' by auto
qed

lemma binary32_ulp_pos: "0 < binary32_ulp x"
  by (simp add: binary32_ulp_def)

lemma round_binary32_error: "\<bar>round_binary32 x - x\<bar> \<le> binary32_ulp x / 2"
proof (cases "x = 0")
  case True
  then show ?thesis using binary32_ulp_pos [of x] by (simp add: round_binary32_def)
next
  case False
  define u where "u = binary32_ulp x"
  define k where "k = round_half_even (x / u)"
  have u: "0 < u" by (simp add: u_def binary32_ulp_pos)
  have "\<bar>of_int k - x / u\<bar> \<le> 1 / 2" unfolding k_def by (rule round_half_even_error)
  then have "\<bar>of_int k - x / u\<bar> * u \<le> 1 / 2 * u"
    using u by (simp add: mult_right_mono)
  moreover have "\<bar>of_int k - x / u\<bar> * u = \<bar>of_int k * u - x\<bar>"
  proof -
    have "\<bar>of_int k - x / u\<bar> * u = \<bar>(of_int k - x / u) * u\<bar>"
      using u by (simp add: abs_mult)
    also have "(of_int k - x / u) * u = of_int k * u - x"
      using u by (simp add: algebra_simps)
    finally show ?thesis .
  qed
  ultimately show ?thesis
    using False by (simp add: round_binary32_def u_def [symmetric] k_def [symmetric])
qed

lemma binary32_ulp_le:
  assumes "x \<noteq> 0"
  shows "binary32_ulp x \<le> \<bar>x\<bar> / 2 ^ 23 \<or> binary32_ulp x = 1 / 2 ^ 149"
proof (cases "- 126 \<le> \<lfloor>log 2 \<bar>x\<bar>\<rfloor>")
  case True
  then have e: "binary32_exponent x = \<lfloor>log 2 \<bar>x\<bar>\<rfloor>"
    by (simp add: binary32_exponent_def)
  have "2 powr of_int \<lfloor>log 2 \<bar>x\<bar>\<rfloor> \<le> 2 powr log 2 \<bar>x\<bar>"
    by (rule powr_mono) simp_all
  also have "\<dots> = \<bar>x\<bar>" using assms by simp
  finally have "2 powr of_int \<lfloor>log 2 \<bar>x\<bar>\<rfloor> \<le> \<bar>x\<bar>" .
  moreover have "binary32_ulp x = 2 powr of_int \<lfloor>log 2 \<bar>x\<bar>\<rfloor> / 2 ^ 23"
    unfolding binary32_ulp_def e by (simp add: powr_diff)
  ultimately show ?thesis by (simp add: divide_right_mono)
next
  case False
  then have "binary32_exponent x = - 126"
    by (simp add: binary32_exponent_def)
  then have "binary32_ulp x = 1 / 2 ^ 149"
    by (simp add: binary32_ulp_def powr_minus_divide)
  then show ?thesis by simp
qed

lemma le_add_slack: "a \<le> b \<Longrightarrow> b \<le> c \<Longrightarrow> 0 \<le> d \<Longrightarrow> a \<le> c + d" for a b c d :: real
  by linarith

lemma le_add_slack2: "a \<le> b \<Longrightarrow> b = d \<Longrightarrow> 0 \<le> c \<Longrightarrow> a \<le> c + d" for a b c d :: real
  by linarith

lemma round_binary32_rel_error:
  "\<bar>round_binary32 x - x\<bar> \<le> \<bar>x\<bar> / 2 ^ 24 + 1 / 2 ^ 150"
proof (cases "x = 0")
  case True
  then show ?thesis by (simp add: round_binary32_def)
next
  case False
  have e: "\<bar>round_binary32 x - x\<bar> \<le> binary32_ulp x / 2" by (rule round_binary32_error)
  from binary32_ulp_le [OF False] show ?thesis
  proof
    assume "binary32_ulp x \<le> \<bar>x\<bar> / 2 ^ 23"
    then have "binary32_ulp x / 2 \<le> \<bar>x\<bar> / 2 ^ 24" by simp
    with e show ?thesis by (rule le_add_slack) simp
  next
    assume "binary32_ulp x = 1 / 2 ^ 149"
    then have "binary32_ulp x / 2 = 1 / 2 ^ 150" by simp
    with e show ?thesis by (rule le_add_slack2) simp
  qed
qed

lemma round_binary32_small:
  assumes "\<bar>x\<bar> \<le> 2"
  shows "\<bar>round_binary32 x - x\<bar> \<le> 1 / 2 ^ 22"
proof -
  have "\<bar>round_binary32 x - x\<bar> \<le> \<bar>x\<bar> / 2 ^ 24 + 1 / 2 ^ 150"
    by (rule round_binary32_rel_error)
  also have "\<dots> \<le> 2 / 2 ^ 24 + 1 / 2 ^ 150" using assms by simp
  also have "\<dots> \<le> 1 / 2 ^ 22" by simp
  finally show ?thesis .
qed

lemma round_binary32_in_range:
  assumes "\<bar>x\<bar> \<le> FLT_MAX"
  shows "\<bar>round_binary32 x\<bar> \<le> FLT_MAX"
proof (cases "x = 0")
  case True
  then show ?thesis by (simp add: round_binary32_def FLT_MAX_def)
next
  case False
  define e where "e = binary32_exponent x"
  define u where "u = binary32_ulp x"
  define k where "k = round_half_even (x / u)"
  have u: "0 < u" by (simp add: u_def binary32_ulp_pos)
  have ue: "u = 2 powr of_int (e - 23)" by (simp add: u_def e_def binary32_ulp_def)
  have r: "round_binary32 x = of_int k * u"
    using False by (simp add: round_binary32_def u_def k_def)
  have "\<bar>x\<bar> < 2 ^ 128" using assms by (simp add: FLT_MAX_def)
  then have "log 2 \<bar>x\<bar> < 128" using False by (simp add: log_less_iff)
  then have "\<lfloor>log 2 \<bar>x\<bar>\<rfloor> < 128" by (simp add: floor_less_iff)
  then have e127: "e \<le> 127" by (simp add: e_def binary32_exponent_def)
  have "log 2 \<bar>x\<bar> < of_int (\<lfloor>log 2 \<bar>x\<bar>\<rfloor> + 1)" by linarith
  also have "\<dots> \<le> of_int (e + 1)" by (simp add: e_def binary32_exponent_def)
  finally have "2 powr log 2 \<bar>x\<bar> < 2 powr of_int (e + 1)" by (simp only: powr_less_cancel_iff) 
  then have xlt: "\<bar>x\<bar> < 2 powr of_int (e + 1)" using False by simp
  show ?thesis
  proof (cases "e = 127")
    case True
    then have u104: "u = 2 ^ 104" by (simp add: ue)
    have "\<bar>x / u\<bar> \<le> FLT_MAX / 2 ^ 104"
      using assms by (simp add: u104 divide_right_mono)
    also have "FLT_MAX / 2 ^ 104 = of_int (2 ^ 24 - 1)" by (simp add: FLT_MAX_def)
    finally have "\<bar>k\<bar> \<le> 2 ^ 24 - 1" unfolding k_def by (rule round_half_even_bound)
    then have "\<bar>of_int k :: real\<bar> \<le> of_int (2 ^ 24 - 1)"
      by (simp only: of_int_abs [symmetric] of_int_le_iff)
    then have "\<bar>of_int k :: real\<bar> * 2 ^ 104 \<le> of_int (2 ^ 24 - 1) * 2 ^ 104"
      by (rule mult_right_mono) simp
    also have "(of_int (2 ^ 24 - 1) :: real) * 2 ^ 104 = FLT_MAX" by (simp add: FLT_MAX_def)
    finally show ?thesis by (simp add: r u104 abs_mult)
  next
    case False
    then have e126: "e \<le> 126" using e127 by simp
    have "\<bar>x / u\<bar> = \<bar>x\<bar> / u" using u by simp
    also have "\<dots> < 2 powr of_int (e + 1) / u" using xlt u by (simp add: divide_strict_right_mono)
    also have "\<dots> = 2 ^ 24" by (simp add: ue powr_diff [symmetric])
    finally have "\<bar>x / u\<bar> \<le> of_int (2 ^ 24)" by simp
    then have "\<bar>k\<bar> \<le> 2 ^ 24" unfolding k_def by (rule round_half_even_bound)
    then have "\<bar>of_int k :: real\<bar> \<le> of_int (2 ^ 24)"
      by (simp only: of_int_abs [symmetric] of_int_le_iff)
    then have "\<bar>of_int k :: real\<bar> * u \<le> of_int (2 ^ 24) * u"
      using u by (simp add: mult_right_mono)
    also have "of_int (2 ^ 24) * u = 2 powr of_int (e + 1)"
      by (simp add: ue powr_diff powr_add)
    also have "\<dots> \<le> 2 powr of_int 127"
      using e126 by (simp only: powr_le_cancel_iff of_int_le_iff)
    also have "\<dots> = 2 ^ 127" by simp
    also have "\<dots> \<le> FLT_MAX" by (simp add: FLT_MAX_def)
    finally show ?thesis using u by (simp add: r abs_mult)
  qed
qed


lemma fl_result_Fin:
  "fl_result M x = Fin y \<Longrightarrow> y = rnd M x \<and> \<bar>y\<bar> \<le> FLT_MAX"
  by (auto simp add: fl_result_def Let_def split: if_splits)

lemma fl_result_in_range:
  "\<bar>rnd M x\<bar> \<le> FLT_MAX \<Longrightarrow> fl_result M x = Fin (rnd M x)"
  by (auto simp add: fl_result_def Let_def)

lemma fl_result_not_NaN [simp]: "fl_result M x \<noteq> NaN"
  by (simp add: fl_result_def Let_def)

lemma FLT_MAX_ge_3: "3 \<le> FLT_MAX"
  by (simp add: FLT_MAX_def)


text \<open>The binary32 machine meets the three conditions of \<^verbatim>\<open>machine_ok\<close>.\<close>

lemma binary32_machine_ok: "machine_ok binary32_machine"
proof -
  have lib: "\<bar>round_binary32 v - v\<bar> \<le> 1 / 128" if "\<bar>v\<bar> \<le> 1" for v :: real
  proof -
    have "\<bar>v\<bar> \<le> 2" using that by simp
    then have "\<bar>round_binary32 v - v\<bar> \<le> 1 / 2 ^ 22" by (rule round_binary32_small)
    also have "\<dots> \<le> 1 / 128" by simp
    finally show ?thesis .
  qed
  have "\<forall>x. \<bar>x\<bar> \<le> 2 \<longrightarrow> \<bar>rnd binary32_machine x - x\<bar> \<le> 1 / 2 ^ 22"
    unfolding binary32_machine_def using round_binary32_small by simp
  moreover have "\<forall>x. \<bar>x\<bar> \<le> FLT_MAX \<longrightarrow> \<bar>rnd binary32_machine x\<bar> \<le> FLT_MAX"
    unfolding binary32_machine_def using round_binary32_in_range by simp
  moreover have "\<forall>x. \<bar>mcos binary32_machine x - cos x\<bar> \<le> 1 / 128
                  \<and> \<bar>msin binary32_machine x - sin x\<bar> \<le> 1 / 128"
    unfolding binary32_machine_def using lib by simp
  ultimately show ?thesis
    unfolding machine_ok_def by blast
qed

lemma binary32_result_fin:
  "\<bar>x\<bar> \<le> FLT_MAX \<Longrightarrow> fl_result binary32_machine x = Fin (round_binary32 x)"
  using fl_result_in_range [of binary32_machine x] round_binary32_in_range [of x]
  by (simp add: binary32_machine_def)

lemma round_binary32_crude: "\<bar>round_binary32 x\<bar> \<le> 2 * \<bar>x\<bar> + 1"
proof -
  have "\<bar>round_binary32 x - x\<bar> \<le> \<bar>x\<bar> / 2 ^ 24 + 1 / 2 ^ 150"
    by (rule round_binary32_rel_error)
  also have "\<dots> \<le> \<bar>x\<bar> + 1"
    by (intro add_mono) (simp_all add: field_simps)
  finally show ?thesis by linarith
qed

lemma round_binary32_near:
  assumes "1 \<le> \<bar>x\<bar>"
  shows "\<bar>round_binary32 x - x\<bar> \<le> \<bar>x\<bar> / 1000"
proof -
  have "\<bar>round_binary32 x - x\<bar> \<le> \<bar>x\<bar> / 2 ^ 24 + 1 / 2 ^ 150"
    by (rule round_binary32_rel_error)
  also have "\<dots> \<le> \<bar>x\<bar> / 2000 + \<bar>x\<bar> / 2000"
    using assms by (intro add_mono) (simp_all add: field_simps)
  finally show ?thesis by simp
qed

lemma binary32_result_overflow:
  assumes "1000 * FLT_MAX < 999 * x"
  shows "fl_result binary32_machine x = PInf"
proof -
  have "3 \<le> FLT_MAX" by (rule FLT_MAX_ge_3)
  then have x: "1 \<le> x" using assms by linarith
  then have "\<bar>round_binary32 x - x\<bar> \<le> \<bar>x\<bar> / 1000"
    by (intro round_binary32_near) simp
  then have "FLT_MAX < round_binary32 x" using assms x by linarith
  then show ?thesis by (simp add: fl_result_def binary32_machine_def)
qed


subsection \<open>Clamping in float arithmetic\<close>

lemma clamp_pitch:
  assumes "v \<noteq> NaN"
  shows "in_range (- 89) 89
           (pitchF (let c2 = c\<lparr> pitchF := v \<rparr>;
                        c3 = (if fl_less (Fin 89) (pitchF c2) then c2\<lparr> pitchF := Fin 89 \<rparr> else c2)
                    in (if fl_less (pitchF c3) (Fin (- 89)) then c3\<lparr> pitchF := Fin (- 89) \<rparr> else c3)))"
  using assms by (cases v) (simp_all add: in_range_def Let_def)

lemma fl_mul_const_not_NaN: "v \<noteq> NaN \<Longrightarrow> k \<noteq> 0 \<Longrightarrow> fl_mul M v (Fin k) \<noteq> NaN"
  by (cases v) (simp_all add: fl_inf_def)

lemma fl_add_fin_not_NaN: "v \<noteq> NaN \<Longrightarrow> fl_add M (Fin p) v \<noteq> NaN"
  by (cases v) simp_all

lemma fl_sub_fin_not_NaN: "fl_sub M (Fin a) (Fin b) \<noteq> NaN"
  by (simp add: fl_sub_def)

lemma fl_sub_fin_left_not_NaN: "v \<noteq> NaN \<Longrightarrow> fl_sub M (Fin a) v \<noteq> NaN"
  by (cases v) (simp_all add: fl_sub_def)

lemma processMouseMoveF_pitch:
  assumes "mouseDownF c"
  shows "pitchF (processMouseMoveF M c xpos ypos) =
           pitchF (let c2 = c\<lparr> pitchF := fl_add M (pitchF c)
                               (fl_mul M (fl_sub M (lastYF c) ypos) (Fin (12079596 / 67108864))) \<rparr>;
                        c3 = (if fl_less (Fin 89) (pitchF c2) then c2\<lparr> pitchF := Fin 89 \<rparr> else c2)
                    in (if fl_less (pitchF c3) (Fin (- 89)) then c3\<lparr> pitchF := Fin (- 89) \<rparr> else c3))"
  using assms by (simp add: processMouseMoveF_def Let_def)

lemma processMouseMoveF_pitch_clamped:
  assumes "mouseDownF c" "is_fin (pitchF c)" "is_fin (lastYF c)" "is_fin ypos"
  shows "in_range (- 89) 89 (pitchF (processMouseMoveF M c xpos ypos))"
proof -
  obtain p l y where v: "pitchF c = Fin p" "lastYF c = Fin l" "ypos = Fin y"
    using assms(2-4) by (auto simp add: is_fin_def split: fl.splits)
  have "fl_add M (pitchF c) (fl_mul M (fl_sub M (lastYF c) ypos) (Fin (12079596 / 67108864))) \<noteq> NaN"
    unfolding v by (intro fl_add_fin_not_NaN fl_mul_const_not_NaN fl_sub_fin_not_NaN) simp
  then show ?thesis
    unfolding processMouseMoveF_pitch [OF assms(1)] by (rule clamp_pitch)
qed

lemma processMouseMoveF_keeps:
  "mouseDownF (processMouseMoveF M c xpos ypos) = mouseDownF c"
  "lastYF (processMouseMoveF M c xpos ypos) = ypos"
  by (simp_all add: processMouseMoveF_def Let_def)

lemma in_range_is_fin: "in_range lo hi a \<Longrightarrow> is_fin a"
  by (cases a) (simp_all add: in_range_def is_fin_def)

lemma moves_invariant:
  assumes "mouseDownF c" "is_fin (pitchF c)" "is_fin (lastYF c)"
    and "\<forall>(x, y) \<in> set moves. is_fin (cast_float M y)"
  shows "mouseDownF (foldl (\<lambda>s (x, y). cursor_callbackF M s x y) c moves)
       \<and> is_fin (pitchF (foldl (\<lambda>s (x, y). cursor_callbackF M s x y) c moves))
       \<and> is_fin (lastYF (foldl (\<lambda>s (x, y). cursor_callbackF M s x y) c moves))"
  using assms
proof (induction moves arbitrary: c)
  case Nil
  then show ?case by simp
next
  case (Cons e moves)
  obtain x y where e: "e = (x, y)" by (cases e)
  have fy: "is_fin (cast_float M y)" using Cons.prems(4) e by simp
  let ?c = "cursor_callbackF M c x y"
  have "mouseDownF ?c" "is_fin (lastYF ?c)"
    using Cons.prems(1) fy by (simp_all add: cursor_callbackF_def processMouseMoveF_keeps)
  moreover have "is_fin (pitchF ?c)"
    unfolding cursor_callbackF_def
    by (rule in_range_is_fin, rule processMouseMoveF_pitch_clamped [OF Cons.prems(1-3) fy])
  ultimately show ?case
    using Cons.IH [of ?c] Cons.prems(4) by (simp add: e)
qed

lemma cast_float_not_NaN: "v \<noteq> NaN \<Longrightarrow> cast_float M v \<noteq> NaN"
  by (cases v) simp_all

lemma scroll_callback_fov_clamped:
  assumes "is_fin (fovF c)" "yoffset \<noteq> NaN"
  shows "in_range 15 90 (fovF (scroll_callback M c xoffset yoffset))"
proof -
  obtain f where f: "fovF c = Fin f"
    using assms(1) by (auto simp add: is_fin_def split: fl.splits)
  have "fl_sub M (fovF c) (cast_float M yoffset) \<noteq> NaN"
    unfolding f using assms(2) by (intro fl_sub_fin_left_not_NaN cast_float_not_NaN)
  then show ?thesis
    by (cases "fl_sub M (fovF c) (cast_float M yoffset)")
       (simp_all add: scroll_callback_def Let_def in_range_def)
qed

lemma scrolls_invariant:
  assumes "is_fin (fovF c)" "\<forall>(x, y) \<in> set scrolls. y \<noteq> NaN"
  shows "is_fin (fovF (foldl (\<lambda>s (x, y). scroll_callback M s x y) c scrolls))"
  using assms
proof (induction scrolls arbitrary: c)
  case Nil
  then show ?case by simp
next
  case (Cons e scrolls)
  obtain x y where e: "e = (x, y)" by (cases e)
  have ny: "y \<noteq> NaN" using Cons.prems(2) e by simp
  have "is_fin (fovF (scroll_callback M c x y))"
    by (rule in_range_is_fin, rule scroll_callback_fov_clamped [OF Cons.prems(1) ny])
  then show ?case
    using Cons.IH [of "scroll_callback M c x y"] Cons.prems(2) by (simp add: e)
qed


text \<open>
  C5 (as amended). On any machine: a camera with the drag active whose stored pitch and
  last y position are finite receives a sequence of mouse-move events whose y coordinates
  are finite after the cast to float; after each event the stored pitch is a finite
  number in [-89, 89]. A camera whose field of view is finite receives a sequence of
  scroll events whose deltas are not NaN (infinite deltas included); after each event the
  stored field of view is a finite number in [15, 90]. The state after the n-th event is
  the fold over the first n events.
\<close>

theorem pitch_and_fov_clamped_on_finite_input:
  assumes "mouseDownF c" "is_fin (pitchF c)" "is_fin (lastYF c)"
    and "\<forall>(x, y) \<in> set moves. is_fin (cast_float M y)"
    and "is_fin (fovF c')"
    and "\<forall>(x, y) \<in> set scrolls. y \<noteq> NaN"
  shows "(\<forall>n. 0 < n \<and> n \<le> length moves \<longrightarrow>
            in_range (- 89) 89
              (pitchF (foldl (\<lambda>s (x, y). cursor_callbackF M s x y) c (take n moves))))
       \<and> (\<forall>n. 0 < n \<and> n \<le> length scrolls \<longrightarrow>
            in_range 15 90
              (fovF (foldl (\<lambda>s (x, y). scroll_callback M s x y) c' (take n scrolls))))"
proof (intro conjI allI impI)
  fix n assume n: "0 < n \<and> n \<le> length moves"
  then obtain m where m: "n = Suc m" "m < length moves"
    by (cases n) auto
  let ?s = "foldl (\<lambda>s (x, y). cursor_callbackF M s x y) c (take m moves)"
  have pre: "\<forall>(x, y) \<in> set (take m moves). is_fin (cast_float M y)"
    using assms(4) by (meson in_set_takeD)
  have inv: "mouseDownF ?s" "is_fin (pitchF ?s)" "is_fin (lastYF ?s)"
    using moves_invariant [OF assms(1-3) pre] by simp_all
  have fy: "is_fin (cast_float M (snd (moves ! m)))"
    using assms(4) m(2) by (metis (mono_tags, lifting) case_prodD nth_mem prod.collapse)
  have step: "foldl (\<lambda>s (x, y). cursor_callbackF M s x y) c (take n moves)
            = processMouseMoveF M ?s (cast_float M (fst (moves ! m))) (cast_float M (snd (moves ! m)))"
    using m by (simp add: take_Suc_conv_app_nth cursor_callbackF_def split_def)
  show "in_range (- 89) 89
          (pitchF (foldl (\<lambda>s (x, y). cursor_callbackF M s x y) c (take n moves)))"
    unfolding step by (rule processMouseMoveF_pitch_clamped [OF inv fy])
next
  fix n assume n: "0 < n \<and> n \<le> length scrolls"
  then obtain m where m: "n = Suc m" "m < length scrolls"
    by (cases n) auto
  let ?s = "foldl (\<lambda>s (x, y). scroll_callback M s x y) c' (take m scrolls)"
  have pre: "\<forall>(x, y) \<in> set (take m scrolls). y \<noteq> NaN"
    using assms(6) by (meson in_set_takeD)
  have inv: "is_fin (fovF ?s)"
    by (rule scrolls_invariant [OF assms(5) pre])
  have fy: "snd (scrolls ! m) \<noteq> NaN"
    using assms(6) m(2) by (metis (mono_tags, lifting) case_prodD nth_mem prod.collapse)
  have step: "foldl (\<lambda>s (x, y). scroll_callback M s x y) c' (take n scrolls)
            = scroll_callback M ?s (fst (scrolls ! m)) (snd (scrolls ! m))"
    using m by (simp add: take_Suc_conv_app_nth split_def)
  show "in_range 15 90 (fovF (foldl (\<lambda>s (x, y). scroll_callback M s x y) c' (take n scrolls)))"
    unfolding step by (rule scroll_callback_fov_clamped [OF inv fy])
qed

lemma drag_camera: "mouseDownF (camera_initF\<lparr> mouseDownF := True \<rparr>)"
  by simp


lemma is_fin_Fin [simp]: "is_fin (Fin x)"
  by (simp add: is_fin_def)

theorem pitch_and_fov_clamped_witness:
  "mouseDownF (camera_initF\<lparr> mouseDownF := True \<rparr>)
   \<and> is_fin (pitchF (camera_initF\<lparr> mouseDownF := True \<rparr>))
   \<and> is_fin (lastYF (camera_initF\<lparr> mouseDownF := True \<rparr>))
   \<and> is_fin (cast_float binary32_machine (Fin (- 10000)))
   \<and> is_fin (cast_float binary32_machine (Fin 20000))
   \<and> is_fin (fovF camera_initF)
   \<and> PInf \<noteq> NaN
   \<and> in_range (- 89) 89
        (pitchF (foldl (\<lambda>s (x, y). cursor_callbackF binary32_machine s x y)
           (camera_initF\<lparr> mouseDownF := True \<rparr>)
           (take 2 [(Fin 400, Fin (- 10000)), (Fin 400, Fin 20000)])))
   \<and> in_range 15 90
        (fovF (foldl (\<lambda>s (x, y). scroll_callback binary32_machine s x y) camera_initF
           (take 1 [(Fin 0, PInf)])))"
proof -
  let ?c = "camera_initF\<lparr> mouseDownF := True \<rparr>"
  have h: "is_fin (pitchF ?c)" "is_fin (lastYF ?c)" "is_fin (fovF camera_initF)"
    by (simp_all add: camera_initF_def)
  have c1: "is_fin (cast_float binary32_machine (Fin (- 10000)))"
    and c2: "is_fin (cast_float binary32_machine (Fin 20000))"
    by (simp_all add: binary32_result_fin FLT_MAX_def)
  have c3: "PInf \<noteq> NaN" by simp
  have m: "\<forall>(x, y) \<in> set [(Fin 400, Fin (- 10000)), (Fin 400, Fin 20000)].
             is_fin (cast_float binary32_machine y)"
    using c1 c2 by simp
  have s: "\<forall>(x, y) \<in> set [(Fin 0, PInf)]. y \<noteq> NaN"
    by simp
  note t = pitch_and_fov_clamped_on_finite_input [OF drag_camera h(1,2) m h(3) s]
  have a: "in_range (- 89) 89
        (pitchF (foldl (\<lambda>s (x, y). cursor_callbackF binary32_machine s x y) ?c
           (take 2 [(Fin 400, Fin (- 10000)), (Fin 400, Fin 20000)])))"
    using t by (elim conjE allE [of _ 2]) simp
  have b: "in_range 15 90
        (fovF (foldl (\<lambda>s (x, y). scroll_callback binary32_machine s x y) camera_initF
           (take 1 [(Fin 0, PInf)])))"
    using t by (elim conjE allE [of _ 1]) simp
  show ?thesis using drag_camera h c1 c2 c3 a b by blast
qed


text \<open>
  C5 (counterexample to the claim as stated, for any pitch delta and any scroll delta). On
  the binary32 machine, with the drag active on the camera as initialised, the cursor
  position (400, 1e39) is delivered twice. The cast of 1e39 to float is plus infinity.
  The first update stores the pitch -89 and plus infinity as the last y position. In the
  second update the y offset is infinity minus infinity, which is NaN; both pitch tests
  are false on NaN and the stored pitch is NaN, which is not in [-89, 89]. In the same
  way a scroll event whose delta is NaN stores NaN as the field of view.
\<close>

theorem pitch_not_clamped_on_overflow:
  "cast_float binary32_machine (Fin (10 ^ 39)) = PInf
   \<and> mouseDownF (camera_initF\<lparr> mouseDownF := True \<rparr>)
   \<and> pitchF (camera_initF\<lparr> mouseDownF := True \<rparr>) = Fin (- 10)
   \<and> lastYF (camera_initF\<lparr> mouseDownF := True \<rparr>) = Fin 300
   \<and> pitchF (cursor_callbackF binary32_machine (camera_initF\<lparr> mouseDownF := True \<rparr>)
        (Fin 400) (Fin (10 ^ 39))) = Fin (- 89)
   \<and> lastYF (cursor_callbackF binary32_machine (camera_initF\<lparr> mouseDownF := True \<rparr>)
        (Fin 400) (Fin (10 ^ 39))) = PInf
   \<and> pitchF (cursor_callbackF binary32_machine
        (cursor_callbackF binary32_machine (camera_initF\<lparr> mouseDownF := True \<rparr>)
           (Fin 400) (Fin (10 ^ 39)))
        (Fin 400) (Fin (10 ^ 39))) = NaN
   \<and> \<not> in_range (- 89) 89 (pitchF (cursor_callbackF binary32_machine
        (cursor_callbackF binary32_machine (camera_initF\<lparr> mouseDownF := True \<rparr>)
           (Fin 400) (Fin (10 ^ 39)))
        (Fin 400) (Fin (10 ^ 39))))
   \<and> fovF (scroll_callback binary32_machine camera_initF (Fin 0) NaN) = NaN
   \<and> \<not> in_range 15 90 (fovF (scroll_callback binary32_machine camera_initF (Fin 0) NaN))"
proof -
  let ?M = binary32_machine
  let ?c = "camera_initF\<lparr> mouseDownF := True \<rparr>"
  let ?c1 = "cursor_callbackF ?M ?c (Fin 400) (Fin (10 ^ 39))"
  let ?c2 = "cursor_callbackF ?M ?c1 (Fin 400) (Fin (10 ^ 39))"
  have "fl_result ?M (10 ^ 39) = PInf"
    by (rule binary32_result_overflow) (simp add: FLT_MAX_def)
  then have big: "cast_float ?M (Fin (10 ^ 39)) = PInf"
    by (simp only: cast_float.simps)
  have i: "pitchF ?c = Fin (- 10)" "lastYF ?c = Fin 300"
    by (simp_all add: camera_initF_def)
  have d1: "mouseDownF ?c1"
    unfolding cursor_callbackF_def by (simp add: processMouseMoveF_keeps)
  have l1: "lastYF ?c1 = PInf"
    unfolding cursor_callbackF_def big by (simp add: processMouseMoveF_keeps)
  have p1: "pitchF ?c1 = Fin (- 89)"
    unfolding cursor_callbackF_def processMouseMoveF_pitch [OF drag_camera] big i
    by (simp add: fl_sub_def fl_inf_def Let_def)
  have p2: "pitchF ?c2 = NaN"
    unfolding cursor_callbackF_def [of _ ?c1] processMouseMoveF_pitch [OF d1] big l1 p1
    by (simp add: fl_sub_def Let_def)
  have f: "fovF (scroll_callback ?M camera_initF (Fin 0) NaN) = NaN"
    by (simp add: scroll_callback_def camera_initF_def fl_sub_def Let_def)
  show ?thesis
    using big drag_camera i p1 l1 p2 f by (simp add: in_range_def)
qed

subsection \<open>The facing direction in float arithmetic\<close>

text \<open>
  Error bounds over the reals: the rounded direction has a squared length between 0.81
  and 1.21, and normalising it with operations that are each within t of the exact
  result gives a vector whose squared length is within 64 t of 1.
\<close>

lemma abs_prod_le:
  fixes x y :: real
  assumes "\<bar>x\<bar> \<le> a" "\<bar>y\<bar> \<le> b"
  shows "\<bar>x * y\<bar> \<le> a * b"
proof -
  have "0 \<le> a" using assms(1) by linarith
  have "\<bar>x * y\<bar> = \<bar>x\<bar> * \<bar>y\<bar>" by (rule abs_mult)
  also have "\<dots> \<le> a * b"
    using assms \<open>0 \<le> a\<close> by (intro mult_mono) simp_all
  finally show ?thesis .
qed

lemma square_perturbed:
  fixes d X r :: real
  assumes "\<bar>d - X\<bar> \<le> r" "\<bar>X\<bar> \<le> 1"
  shows "\<bar>d\<^sup>2 - X\<^sup>2\<bar> \<le> r * (2 + r)"
proof -
  have "\<bar>d + X\<bar> \<le> 2 + r" using assms by linarith
  then have "\<bar>(d - X) * (d + X)\<bar> \<le> r * (2 + r)"
    using assms(1) by (rule abs_prod_le [rotated]) 
  moreover have "(d - X) * (d + X) = d\<^sup>2 - X\<^sup>2"
    by (simp add: power2_eq_square algebra_simps)
  ultimately show ?thesis by simp
qed

lemma spherical_squares:
  fixes x y z s :: real
  shows "(x * y)\<^sup>2 + s\<^sup>2 + (z * y)\<^sup>2 = y\<^sup>2 * (x\<^sup>2 + z\<^sup>2) + s\<^sup>2"
  by (simp add: power_mult_distrib algebra_simps)

lemma spherical_unit:
  "(cos a * cos b)\<^sup>2 + (sin b)\<^sup>2 + (sin a * cos b)\<^sup>2 = (1::real)"
proof -
  have "(cos a * cos b)\<^sup>2 + (sin b)\<^sup>2 + (sin a * cos b)\<^sup>2
        = (cos b)\<^sup>2 * ((cos a)\<^sup>2 + (sin a)\<^sup>2) + (sin b)\<^sup>2"
    by (rule spherical_squares)
  also have "\<dots> = 1" by (simp add: add.commute)
  finally show ?thesis .
qed

lemma product_perturbed:
  fixes C1 C2 x1 x2 t :: real
  assumes "\<bar>C1 - x1\<bar> \<le> 1 / 128" "\<bar>C2 - x2\<bar> \<le> 1 / 128" "\<bar>x1\<bar> \<le> 1" "\<bar>x2\<bar> \<le> 1"
    and "\<bar>d - C1 * C2\<bar> \<le> t" "t \<le> 1 / 1000"
  shows "\<bar>d - x1 * x2\<bar> \<le> 1 / 50"
proof -
  have c2: "\<bar>C2\<bar> \<le> 129 / 128" using assms(2,4) by linarith
  have "\<bar>(C1 - x1) * C2\<bar> \<le> (1 / 128) * (129 / 128)"
    using assms(1) c2 by (rule abs_prod_le)
  then have p1: "\<bar>(C1 - x1) * C2\<bar> \<le> 129 / 16384" by simp
  have "\<bar>x1 * (C2 - x2)\<bar> \<le> 1 * (1 / 128)"
    using assms(3,2) by (rule abs_prod_le)
  then have p2: "\<bar>x1 * (C2 - x2)\<bar> \<le> 1 / 128" by simp
  have "C1 * C2 - x1 * x2 = (C1 - x1) * C2 + x1 * (C2 - x2)"
    by (simp add: algebra_simps)
  then have "\<bar>C1 * C2 - x1 * x2\<bar> \<le> 129 / 16384 + 1 / 128"
    using p1 p2 by linarith
  then show ?thesis using assms(5,6) by linarith
qed

lemma direction_norm_bounds:
  fixes a b Ca Sa Cb Sb dx dz t :: real
  assumes "\<bar>Ca - cos a\<bar> \<le> 1 / 128" "\<bar>Sa - sin a\<bar> \<le> 1 / 128"
    "\<bar>Cb - cos b\<bar> \<le> 1 / 128" "\<bar>Sb - sin b\<bar> \<le> 1 / 128"
    "\<bar>dx - Ca * Cb\<bar> \<le> t" "\<bar>dz - Sa * Cb\<bar> \<le> t" "t \<le> 1 / 1000"
  shows "81 / 100 \<le> dx\<^sup>2 + Sb\<^sup>2 + dz\<^sup>2 \<and> dx\<^sup>2 + Sb\<^sup>2 + dz\<^sup>2 \<le> 121 / 100"
proof -
  have x: "\<bar>dx - cos a * cos b\<bar> \<le> 1 / 50"
    by (rule product_perturbed [OF assms(1,3) _ _ assms(5,7)]) simp_all
  have z: "\<bar>dz - sin a * cos b\<bar> \<le> 1 / 50"
    by (rule product_perturbed [OF assms(2,3) _ _ assms(6,7)]) simp_all
  have y: "\<bar>Sb - sin b\<bar> \<le> 1 / 50" using assms(4) by simp
  have ux: "\<bar>cos a * cos b\<bar> \<le> 1"
    using abs_prod_le [of "cos a" 1 "cos b" 1] by simp
  have uz: "\<bar>sin a * cos b\<bar> \<le> 1"
    using abs_prod_le [of "sin a" 1 "cos b" 1] by simp
  have "\<bar>dx\<^sup>2 - (cos a * cos b)\<^sup>2\<bar> \<le> (1 / 50) * (2 + 1 / 50)"
    by (rule square_perturbed [OF x ux])
  then have 1: "\<bar>dx\<^sup>2 - (cos a * cos b)\<^sup>2\<bar> \<le> 101 / 2500" by simp
  have "\<bar>Sb\<^sup>2 - (sin b)\<^sup>2\<bar> \<le> (1 / 50) * (2 + 1 / 50)"
    by (rule square_perturbed [OF y]) simp
  then have 2: "\<bar>Sb\<^sup>2 - (sin b)\<^sup>2\<bar> \<le> 101 / 2500" by simp
  have "\<bar>dz\<^sup>2 - (sin a * cos b)\<^sup>2\<bar> \<le> (1 / 50) * (2 + 1 / 50)"
    by (rule square_perturbed [OF z uz])
  then have 3: "\<bar>dz\<^sup>2 - (sin a * cos b)\<^sup>2\<bar> \<le> 101 / 2500" by simp
  show ?thesis
    using 1 2 3 spherical_unit [of a b] by linarith
qed

lemma scaled_abs_bound:
  fixes x k e c :: real
  assumes "\<bar>x\<bar> * k \<le> e" "e \<le> c * k" "0 < k"
  shows "\<bar>x\<bar> \<le> c"
proof -
  have "\<bar>x\<bar> * k \<le> c * k" using assms(1,2) by (rule order_trans)
  then show ?thesis using assms(3) by simp
qed

lemma component_error:
  fixes d s r f t :: real
  assumes "0 \<le> t" "t \<le> 1 / 1000" "\<bar>d\<bar> \<le> 11 / 10" "\<bar>s - r\<bar> \<le> 7 * t"
    "\<bar>f - d * s\<bar> \<le> t" "\<bar>d * r\<bar> \<le> 1"
  shows "\<bar>f\<^sup>2 - (d * r)\<^sup>2\<bar> \<le> 19 * t"
proof -
  have "\<bar>d * (s - r)\<bar> \<le> (11 / 10) * (7 * t)"
    using assms(3,4) by (rule abs_prod_le)
  then have "\<bar>d * s - d * r\<bar> \<le> 77 / 10 * t"
    by (simp add: algebra_simps)
  then have h: "\<bar>f - d * r\<bar> \<le> 9 * t"
    using assms(1,5) by linarith
  have "\<bar>f\<^sup>2 - (d * r)\<^sup>2\<bar> \<le> (9 * t) * (2 + 9 * t)"
    by (rule square_perturbed [OF h assms(6)])
  moreover have "t * t \<le> t * (1 / 1000)"
    using assms(1,2) by (intro mult_left_mono)
  moreover have "(9 * t) * (2 + 9 * t) = 18 * t + 81 * (t * t)"
    by (simp add: algebra_simps)
  ultimately show ?thesis using assms(1) by linarith
qed

lemma normalize_error:
  fixes dx dy dz t1 t2 t3 u D q s fx fy fz t :: real
  assumes t: "0 \<le> t" "t \<le> 1 / 1000"
    and N: "81 / 100 \<le> dx\<^sup>2 + dy\<^sup>2 + dz\<^sup>2" "dx\<^sup>2 + dy\<^sup>2 + dz\<^sup>2 \<le> 121 / 100"
    and e: "\<bar>t1 - dx * dx\<bar> \<le> t" "\<bar>t2 - dy * dy\<bar> \<le> t" "\<bar>t3 - dz * dz\<bar> \<le> t"
      "\<bar>u - (t1 + t2)\<bar> \<le> t" "\<bar>D - (u + t3)\<bar> \<le> t"
      "\<bar>q - sqrt D\<bar> \<le> t" "\<bar>s - 1 / q\<bar> \<le> t"
      "\<bar>fx - dx * s\<bar> \<le> t" "\<bar>fy - dy * s\<bar> \<le> t" "\<bar>fz - dz * s\<bar> \<le> t"
  shows "\<bar>fx\<^sup>2 + fy\<^sup>2 + fz\<^sup>2 - 1\<bar> \<le> 64 * t"
proof -
  define N where "N = dx\<^sup>2 + dy\<^sup>2 + dz\<^sup>2"
  have N1: "81 / 100 \<le> N" "N \<le> 121 / 100" using N by (simp_all add: N_def)
  have DN: "\<bar>D - N\<bar> \<le> 5 * t"
    using e(1-5) unfolding N_def power2_eq_square by linarith
  have D8: "4 / 5 \<le> D" using DN N1 t by linarith
  define a where "a = sqrt D"
  define b where "b = sqrt N"
  have b9: "9 / 10 \<le> b"
    unfolding b_def using N1(1) by (intro real_le_rsqrt) (simp add: power2_eq_square)
  have a89: "89 / 100 \<le> a"
    unfolding a_def using D8 by (intro real_le_rsqrt) (simp add: power2_eq_square)
  have a2: "a * a = D" unfolding a_def using D8 by simp
  have b2: "b * b = N" unfolding b_def using N1 by simp
  have "(a - b) * (a + b) = D - N"
    by (simp add: algebra_simps a2 b2)
  then have "\<bar>a - b\<bar> * \<bar>a + b\<bar> = \<bar>D - N\<bar>"
    by (simp add: abs_mult [symmetric])
  moreover have "\<bar>a - b\<bar> * (179 / 100) \<le> \<bar>a - b\<bar> * \<bar>a + b\<bar>"
    using a89 b9 by (intro mult_left_mono) simp_all
  ultimately have "\<bar>a - b\<bar> * (179 / 100) \<le> 5 * t"
    using DN by (simp only:)
  moreover have "5 * t \<le> 3 * t * (179 / 100)"
    using t by simp
  ultimately have ab: "\<bar>a - b\<bar> \<le> 3 * t"
    by (rule scaled_abs_bound) simp
  have qb: "\<bar>q - b\<bar> \<le> 4 * t"
    using e(6) ab unfolding a_def by linarith
  have q88: "88 / 100 \<le> q"
    using e(6) a89 t unfolding a_def by linarith
  define r where "r = 1 / b"
  have bpos: "0 < b" and qpos: "0 < q" using b9 q88 by simp_all
  have "(1 / q - r) * (q * b) = b - q"
    unfolding r_def using bpos qpos by (simp add: field_simps)
  then have "\<bar>1 / q - r\<bar> * \<bar>q * b\<bar> = \<bar>b - q\<bar>"
    by (simp add: abs_mult [symmetric])
  moreover have "(88 / 100) * (9 / 10) \<le> q * b"
    using q88 b9 by (intro mult_mono) simp_all
  then have "\<bar>1 / q - r\<bar> * (792 / 1000) \<le> \<bar>1 / q - r\<bar> * \<bar>q * b\<bar>"
    by (intro mult_left_mono) simp_all
  ultimately have "\<bar>1 / q - r\<bar> * (792 / 1000) \<le> \<bar>b - q\<bar>"
    by (simp only:)
  moreover have "\<bar>b - q\<bar> \<le> 6 * t * (792 / 1000)"
    using qb t by linarith
  ultimately have inv: "\<bar>1 / q - r\<bar> \<le> 6 * t"
    by (rule scaled_abs_bound) simp
  have sr: "\<bar>s - r\<bar> \<le> 7 * t"
    using e(7) inv by linarith
  have r2: "r * r * N = 1"
    unfolding r_def using bpos b2 [symmetric] by (simp add: field_simps)
  have sum: "(dx * r)\<^sup>2 + (dy * r)\<^sup>2 + (dz * r)\<^sup>2 = 1"
  proof -
    have "(dx * r)\<^sup>2 + (dy * r)\<^sup>2 + (dz * r)\<^sup>2 = r * r * N"
      by (simp add: N_def power2_eq_square algebra_simps)
    then show ?thesis using r2 by simp
  qed
  have small: "\<bar>d\<bar> \<le> 11 / 10" if "d\<^sup>2 \<le> N" for d
  proof -
    have "d\<^sup>2 \<le> (11 / 10)\<^sup>2" using that N1(2) by (simp add: power2_eq_square)
    then show ?thesis by (simp add: abs_le_square_iff [symmetric])
  qed
  have unit: "\<bar>g\<bar> \<le> 1" if "g\<^sup>2 \<le> 1" for g :: real
    using that by (simp add: abs_square_le_1)
  have dxN: "dx\<^sup>2 \<le> N" and dyN: "dy\<^sup>2 \<le> N" and dzN: "dz\<^sup>2 \<le> N"
    by (simp_all add: N_def)
  have gx: "(dx * r)\<^sup>2 \<le> 1" and gy: "(dy * r)\<^sup>2 \<le> 1" and gz: "(dz * r)\<^sup>2 \<le> 1"
    using sum zero_le_power2 [of "dx * r"] zero_le_power2 [of "dy * r"]
      zero_le_power2 [of "dz * r"] by linarith+
  have ex: "\<bar>fx\<^sup>2 - (dx * r)\<^sup>2\<bar> \<le> 19 * t"
    by (rule component_error [OF t small [OF dxN] sr e(8) unit [OF gx]])
  have ey: "\<bar>fy\<^sup>2 - (dy * r)\<^sup>2\<bar> \<le> 19 * t"
    by (rule component_error [OF t small [OF dyN] sr e(9) unit [OF gy]])
  have ez: "\<bar>fz\<^sup>2 - (dz * r)\<^sup>2\<bar> \<le> 19 * t"
    by (rule component_error [OF t small [OF dzN] sr e(10) unit [OF gz]])
  show ?thesis using ex ey ez sum t by linarith
qed


lemma small_result:
  assumes "machine_ok M" "\<bar>x\<bar> \<le> 2"
  shows "fl_result M x = Fin (rnd M x)" "\<bar>rnd M x - x\<bar> \<le> 1 / 4194304"
proof -
  show e: "\<bar>rnd M x - x\<bar> \<le> 1 / 4194304"
    using assms by (simp add: machine_ok_def)
  then have "\<bar>rnd M x\<bar> \<le> FLT_MAX"
    using assms(2) FLT_MAX_ge_3 by linarith
  then show "fl_result M x = Fin (rnd M x)"
    by (rule fl_result_in_range)
qed

lemma radiansF_fin:
  assumes "machine_ok M" "\<bar>y\<bar> \<le> FLT_MAX"
  shows "\<exists>a. radiansF M (Fin y) = Fin a"
proof -
  have "\<bar>y * (9370165 / 536870912)\<bar> \<le> FLT_MAX * 1"
    using assms(2) by (rule abs_prod_le) simp
  then have "\<bar>rnd M (y * (9370165 / 536870912))\<bar> \<le> FLT_MAX"
    using assms(1) by (simp add: machine_ok_def)
  then show ?thesis
    by (simp add: radiansF_def fl_result_in_range)
qed

lemma normalized_direction:
  assumes ok: "machine_ok M" and y: "\<bar>y\<bar> \<le> FLT_MAX" and p: "\<bar>p\<bar> \<le> FLT_MAX"
  shows "\<exists>fx fy fz.
           normalizeF M
             (FVec3 (fl_mul M (fl_cos M (radiansF M (Fin y))) (fl_cos M (radiansF M (Fin p))))
                    (fl_sin M (radiansF M (Fin p)))
                    (fl_mul M (fl_sin M (radiansF M (Fin y))) (fl_cos M (radiansF M (Fin p)))))
           = FVec3 (Fin fx) (Fin fy) (Fin fz)
         \<and> \<bar>fx\<^sup>2 + fy\<^sup>2 + fz\<^sup>2 - 1\<bar> \<le> 1 / 65536"
proof -
  obtain a where a: "radiansF M (Fin y) = Fin a" using radiansF_fin [OF ok y] by blast
  obtain b where b: "radiansF M (Fin p) = Fin b" using radiansF_fin [OF ok p] by blast
  define Ca where "Ca = mcos M a"
  define Sa where "Sa = msin M a"
  define Cb where "Cb = mcos M b"
  define Sb where "Sb = msin M b"
  have lib: "\<bar>Ca - cos a\<bar> \<le> 1 / 128" "\<bar>Sa - sin a\<bar> \<le> 1 / 128"
    "\<bar>Cb - cos b\<bar> \<le> 1 / 128" "\<bar>Sb - sin b\<bar> \<le> 1 / 128"
    using ok by (simp_all add: machine_ok_def Ca_def Sa_def Cb_def Sb_def)
  have mag: "\<bar>Ca\<bar> \<le> 129 / 128" "\<bar>Sa\<bar> \<le> 129 / 128" "\<bar>Cb\<bar> \<le> 129 / 128"
    using lib(1) abs_cos_le_one [of a] lib(2) abs_sin_le_one [of a] lib(3) abs_cos_le_one [of b]
    by linarith+
  have "\<bar>Ca * Cb\<bar> \<le> (129 / 128) * (129 / 128)" using mag(1,3) by (rule abs_prod_le)
  then have m1: "\<bar>Ca * Cb\<bar> \<le> 2" by simp
  have "\<bar>Sa * Cb\<bar> \<le> (129 / 128) * (129 / 128)" using mag(2,3) by (rule abs_prod_le)
  then have m2: "\<bar>Sa * Cb\<bar> \<le> 2" by simp
  define dx where "dx = rnd M (Ca * Cb)"
  define dz where "dz = rnd M (Sa * Cb)"
  note rx = small_result [OF ok m1, folded dx_def]
  note rz = small_result [OF ok m2, folded dz_def]
  have dir: "FVec3 (fl_mul M (fl_cos M (radiansF M (Fin y))) (fl_cos M (radiansF M (Fin p))))
                    (fl_sin M (radiansF M (Fin p)))
                    (fl_mul M (fl_sin M (radiansF M (Fin y))) (fl_cos M (radiansF M (Fin p))))
             = FVec3 (Fin dx) (Fin Sb) (Fin dz)"
    by (simp add: a b Ca_def [symmetric] Sa_def [symmetric] Cb_def [symmetric]
        Sb_def [symmetric] rx(1) rz(1))
  have t: "(0::real) \<le> 1 / 4194304" "(1::real) / 4194304 \<le> 1 / 1000" by simp_all
  have N: "81 / 100 \<le> dx\<^sup>2 + Sb\<^sup>2 + dz\<^sup>2" "dx\<^sup>2 + Sb\<^sup>2 + dz\<^sup>2 \<le> 121 / 100"
    using direction_norm_bounds [OF lib rx(2) rz(2) t(2)] by simp_all
  have sq: "0 \<le> dx * dx" "0 \<le> Sb * Sb" "0 \<le> dz * dz" by simp_all
  have Nm: "dx * dx + Sb * Sb + dz * dz \<le> 121 / 100" "81 / 100 \<le> dx * dx + Sb * Sb + dz * dz"
    using N by (simp_all add: power2_eq_square)
  define t1 where "t1 = rnd M (dx * dx)"
  define t2 where "t2 = rnd M (Sb * Sb)"
  define t3 where "t3 = rnd M (dz * dz)"
  have b1: "\<bar>dx * dx\<bar> \<le> 2" "\<bar>Sb * Sb\<bar> \<le> 2" "\<bar>dz * dz\<bar> \<le> 2"
    using sq Nm(1) by linarith+
  note r1 = small_result [OF ok b1(1), folded t1_def]
  note r2 = small_result [OF ok b1(2), folded t2_def]
  note r3 = small_result [OF ok b1(3), folded t3_def]
  have b4: "\<bar>t1 + t2\<bar> \<le> 2" using r1(2) r2(2) sq Nm(1) by linarith
  define u where "u = rnd M (t1 + t2)"
  note r4 = small_result [OF ok b4, folded u_def]
  have b5: "\<bar>u + t3\<bar> \<le> 2" using r1(2) r2(2) r3(2) r4(2) sq Nm(1) by linarith
  define D where "D = rnd M (u + t3)"
  note r5 = small_result [OF ok b5, folded D_def]
  have dot: "dotF M (FVec3 (Fin dx) (Fin Sb) (Fin dz)) (FVec3 (Fin dx) (Fin Sb) (Fin dz)) = Fin D"
    by (simp add: dotF_def r1(1) r2(1) r3(1) r4(1) r5(1))
  have D8: "4 / 5 \<le> D" "D \<le> 2"
    using r1(2) r2(2) r3(2) r4(2) r5(2) Nm by linarith+
  have sD: "89 / 100 \<le> sqrt D"
    using D8(1) by (intro real_le_rsqrt) (simp add: power2_eq_square)
  have sD2: "sqrt D \<le> 2"
    using D8 by (intro real_le_lsqrt) simp_all
  have b6: "\<bar>sqrt D\<bar> \<le> 2" using sD sD2 by linarith
  define q where "q = rnd M (sqrt D)"
  note r6 = small_result [OF ok b6, folded q_def]
  have root: "fl_sqrt M (Fin D) = Fin q"
    using D8(1) by (simp add: r6(1))
  have q88: "88 / 100 \<le> q" using r6(2) sD by linarith
  have "1 / q \<le> 1 / (88 / 100)"
    using q88 by (intro divide_left_mono) simp_all
  then have b7: "\<bar>1 / q\<bar> \<le> 2" using q88 by simp
  define s where "s = rnd M (1 / q)"
  note r7 = small_result [OF ok b7, folded s_def]
  have inv: "inversesqrtF M (Fin D) = Fin s"
    unfolding inversesqrtF_def root using q88 by (simp add: r7(1))
  have s12: "\<bar>s\<bar> \<le> 6 / 5"
  proof -
    define w where "w = 1 / q"
    have qpos: "0 < q" using q88 by simp
    have "w \<le> 25 / 22"
      unfolding w_def using q88 qpos by (simp add: pos_divide_le_eq)
    moreover have "0 \<le> w" unfolding w_def using qpos by simp
    moreover have "\<bar>s - w\<bar> \<le> 1 / 4194304" using r7(2) by (simp only: w_def)
    ultimately show ?thesis by linarith
  qed
  have small: "\<bar>d\<bar> \<le> 11 / 10" if "d * d \<le> 121 / 100" for d :: real
  proof -
    have "d\<^sup>2 \<le> (11 / 10)\<^sup>2" using that by (simp add: power2_eq_square)
    then show ?thesis by (simp add: abs_le_square_iff [symmetric])
  qed
  have dm: "\<bar>dx\<bar> \<le> 11 / 10" "\<bar>Sb\<bar> \<le> 11 / 10" "\<bar>dz\<bar> \<le> 11 / 10"
    using sq Nm(1) by (intro small; linarith)+
  have b8: "\<bar>dx * s\<bar> \<le> 2" "\<bar>Sb * s\<bar> \<le> 2" "\<bar>dz * s\<bar> \<le> 2"
    using abs_prod_le [OF dm(1) s12] abs_prod_le [OF dm(2) s12] abs_prod_le [OF dm(3) s12]
    by simp_all
  define fx where "fx = rnd M (dx * s)"
  define fy where "fy = rnd M (Sb * s)"
  define fz where "fz = rnd M (dz * s)"
  note r8 = small_result [OF ok b8(1), folded fx_def]
  note r9 = small_result [OF ok b8(2), folded fy_def]
  note r10 = small_result [OF ok b8(3), folded fz_def]
  have norm: "normalizeF M (FVec3 (Fin dx) (Fin Sb) (Fin dz)) = FVec3 (Fin fx) (Fin fy) (Fin fz)"
    unfolding normalizeF_def dot inv by (simp add: scaleF_def r8(1) r9(1) r10(1))
  have "\<bar>fx\<^sup>2 + fy\<^sup>2 + fz\<^sup>2 - 1\<bar> \<le> 64 * (1 / 4194304)"
    by (rule normalize_error [OF t N r1(2) r2(2) r3(2) r4(2) r5(2) r6(2) r7(2) r8(2) r9(2) r10(2)])
  then have "\<bar>fx\<^sup>2 + fy\<^sup>2 + fz\<^sup>2 - 1\<bar> \<le> 1 / 65536" by simp
  with norm dir show ?thesis by auto
qed

lemma sqrt_near_one:
  fixes S :: real
  assumes "0 \<le> S"
  shows "\<bar>sqrt S - 1\<bar> \<le> \<bar>S - 1\<bar>"
proof -
  have "(sqrt S - 1) * (sqrt S + 1) = S - 1"
    using assms by (simp add: algebra_simps)
  then have "\<bar>sqrt S - 1\<bar> * \<bar>sqrt S + 1\<bar> = \<bar>S - 1\<bar>"
    by (simp add: abs_mult [symmetric])
  moreover have "\<bar>sqrt S - 1\<bar> * 1 \<le> \<bar>sqrt S - 1\<bar> * \<bar>sqrt S + 1\<bar>"
    using assms by (intro mult_left_mono) simp_all
  ultimately show ?thesis by simp
qed

lemma fl_add_Fin_bound: "fl_add M a b = Fin y \<Longrightarrow> \<bar>y\<bar> \<le> FLT_MAX"
  by (cases a; cases b) (auto dest: fl_result_Fin)

lemma processMouseMoveF_yaw:
  assumes "mouseDownF c"
  shows "yawF (processMouseMoveF M c xpos ypos)
         = fl_add M (yawF c) (fl_mul M (fl_sub M xpos (lastXF c)) (Fin (12079596 / 67108864)))"
    and "lastXF (processMouseMoveF M c xpos ypos) = xpos"
  using assms by (simp_all add: processMouseMoveF_def Let_def)

lemma processMouseMoveF_front:
  assumes "mouseDownF c"
  shows "frontF (processMouseMoveF M c xpos ypos)
         = normalizeF M
             (FVec3 (fl_mul M (fl_cos M (radiansF M (yawF (processMouseMoveF M c xpos ypos))))
                              (fl_cos M (radiansF M (pitchF (processMouseMoveF M c xpos ypos)))))
                    (fl_sin M (radiansF M (pitchF (processMouseMoveF M c xpos ypos))))
                    (fl_mul M (fl_sin M (radiansF M (yawF (processMouseMoveF M c xpos ypos))))
                              (fl_cos M (radiansF M (pitchF (processMouseMoveF M c xpos ypos))))))"
  using assms by (simp add: processMouseMoveF_def Let_def)

lemma clamped_pitch_bound:
  assumes "mouseDownF c" "pitchF (processMouseMoveF M c xpos ypos) = Fin p"
  shows "\<bar>p\<bar> \<le> FLT_MAX"
proof -
  let ?v = "fl_add M (pitchF c) (fl_mul M (fl_sub M (lastYF c) ypos) (Fin (12079596 / 67108864)))"
  have "?v \<noteq> NaN"
  proof
    assume "?v = NaN"
    then have "pitchF (processMouseMoveF M c xpos ypos) = NaN"
      unfolding processMouseMoveF_pitch [OF assms(1)] by (simp add: Let_def)
    then show False using assms(2) by simp
  qed
  then have "in_range (- 89) 89 (pitchF (processMouseMoveF M c xpos ypos))"
    unfolding processMouseMoveF_pitch [OF assms(1)] by (rule clamp_pitch)
  then have "\<bar>p\<bar> \<le> 89" using assms(2) by (auto simp add: in_range_def)
  moreover have "(89::real) \<le> FLT_MAX" by (simp add: FLT_MAX_def)
  ultimately show ?thesis by linarith
qed


text \<open>
  C8 (as amended). On a machine that meets \<^verbatim>\<open>machine_ok\<close> (the binary32 machine does), after
  a mouse-move update made while the drag is active that leaves the stored yaw and pitch
  finite, the three components of the front vector are finite numbers and the length of
  the vector differs from 1 by at most 2^-16.
\<close>

theorem front_has_unit_length_up_to_rounding:
  assumes "machine_ok M" "mouseDownF c"
    and "is_fin (yawF (processMouseMoveF M c xpos ypos))"
    and "is_fin (pitchF (processMouseMoveF M c xpos ypos))"
  shows "\<exists>fx fy fz. frontF (processMouseMoveF M c xpos ypos) = FVec3 (Fin fx) (Fin fy) (Fin fz)
           \<and> \<bar>sqrt (fx\<^sup>2 + fy\<^sup>2 + fz\<^sup>2) - 1\<bar> \<le> 1 / 65536"
proof -
  obtain y p where y: "yawF (processMouseMoveF M c xpos ypos) = Fin y"
    and p: "pitchF (processMouseMoveF M c xpos ypos) = Fin p"
    using assms(3,4) by (auto simp add: is_fin_def split: fl.splits)
  have yb: "\<bar>y\<bar> \<le> FLT_MAX"
    using y unfolding processMouseMoveF_yaw(1) [OF assms(2)] by (rule fl_add_Fin_bound)
  have pb: "\<bar>p\<bar> \<le> FLT_MAX"
    by (rule clamped_pitch_bound [OF assms(2) p])
  obtain fx fy fz where f: "frontF (processMouseMoveF M c xpos ypos) = FVec3 (Fin fx) (Fin fy) (Fin fz)"
    and e: "\<bar>fx\<^sup>2 + fy\<^sup>2 + fz\<^sup>2 - 1\<bar> \<le> 1 / 65536"
    using normalized_direction [OF assms(1) yb pb]
    unfolding processMouseMoveF_front [OF assms(2)] y p by blast
  have "\<bar>sqrt (fx\<^sup>2 + fy\<^sup>2 + fz\<^sup>2) - 1\<bar> \<le> \<bar>fx\<^sup>2 + fy\<^sup>2 + fz\<^sup>2 - 1\<bar>"
    by (rule sqrt_near_one) simp
  then have "\<bar>sqrt (fx\<^sup>2 + fy\<^sup>2 + fz\<^sup>2) - 1\<bar> \<le> 1 / 65536"
    using e by linarith
  with f show ?thesis by blast
qed

lemma sensitivity_product:
  fixes a B :: real
  assumes "\<bar>a\<bar> \<le> B"
  shows "\<bar>a * (12079596 / 67108864)\<bar> \<le> B / 5"
proof -
  have "\<bar>a * (12079596 / 67108864)\<bar> = \<bar>a\<bar> * (12079596 / 67108864)"
    by (simp add: abs_mult)
  also have "\<dots> \<le> B * (12079596 / 67108864)"
    using assms by (intro mult_right_mono) simp_all
  also have "\<dots> \<le> B / 5"
    using assms by simp
  finally show ?thesis .
qed

lemma yaw_update_finite:
  assumes "\<bar>x - l\<bar> \<le> FLT_MAX" "\<bar>y\<bar> \<le> 90"
  shows "is_fin (fl_add binary32_machine (Fin y)
           (fl_mul binary32_machine (fl_sub binary32_machine (Fin x) (Fin l))
              (Fin (12079596 / 67108864))))"
proof -
  define a where "a = round_binary32 (x - l)"
  define p where "p = a * (12079596 / 67108864)"
  define b where "b = round_binary32 p"
  have F: "1000 \<le> FLT_MAX" by (simp add: FLT_MAX_def)
  have a: "fl_result binary32_machine (x - l) = Fin a"
    unfolding a_def using assms(1) by (rule binary32_result_fin)
  have "\<bar>a\<bar> \<le> FLT_MAX"
    unfolding a_def using assms(1) by (rule round_binary32_in_range)
  then have pb: "\<bar>p\<bar> \<le> FLT_MAX / 5"
    unfolding p_def by (rule sensitivity_product)
  then have "\<bar>p\<bar> \<le> FLT_MAX" using F by linarith
  then have b: "fl_result binary32_machine p = Fin b"
    unfolding b_def by (rule binary32_result_fin)
  have "\<bar>b\<bar> \<le> 2 * \<bar>p\<bar> + 1"
    unfolding b_def by (rule round_binary32_crude)
  then have "\<bar>y + b\<bar> \<le> FLT_MAX" using pb assms(2) F by linarith
  then have c: "fl_result binary32_machine (y + b) = Fin (round_binary32 (y + b))"
    by (rule binary32_result_fin)
  have s1: "fl_sub binary32_machine (Fin x) (Fin l) = Fin a"
    by (simp add: fl_sub_def a)
  have s2: "fl_mul binary32_machine (Fin a) (Fin (12079596 / 67108864)) = Fin b"
    by (simp only: fl_mul.simps b [unfolded p_def])
  have s3: "fl_add binary32_machine (Fin y) (Fin b) = Fin (round_binary32 (y + b))"
    by (simp only: fl_add.simps c)
  show ?thesis
    unfolding s1 s2 s3 by (rule is_fin_Fin)
qed

theorem front_has_unit_length_witness:
  "machine_ok binary32_machine
   \<and> mouseDownF (camera_initF\<lparr> mouseDownF := True \<rparr>)
   \<and> is_fin (yawF (processMouseMoveF binary32_machine (camera_initF\<lparr> mouseDownF := True \<rparr>)
        (Fin 500) (Fin 200)))
   \<and> is_fin (pitchF (processMouseMoveF binary32_machine (camera_initF\<lparr> mouseDownF := True \<rparr>)
        (Fin 500) (Fin 200)))
   \<and> (\<exists>fx fy fz. frontF (processMouseMoveF binary32_machine (camera_initF\<lparr> mouseDownF := True \<rparr>)
          (Fin 500) (Fin 200)) = FVec3 (Fin fx) (Fin fy) (Fin fz)
        \<and> \<bar>sqrt (fx\<^sup>2 + fy\<^sup>2 + fz\<^sup>2) - 1\<bar> \<le> 1 / 65536)"
proof -
  let ?c = "camera_initF\<lparr> mouseDownF := True \<rparr>"
  have i: "yawF ?c = Fin (- 90)" "lastXF ?c = Fin 400" "is_fin (pitchF ?c)" "is_fin (lastYF ?c)"
    by (simp_all add: camera_initF_def)
  have y: "is_fin (yawF (processMouseMoveF binary32_machine ?c (Fin 500) (Fin 200)))"
    unfolding processMouseMoveF_yaw(1) [OF drag_camera] i
    by (rule yaw_update_finite) (simp_all add: FLT_MAX_def)
  have p: "is_fin (pitchF (processMouseMoveF binary32_machine ?c (Fin 500) (Fin 200)))"
    by (rule in_range_is_fin, rule processMouseMoveF_pitch_clamped [OF drag_camera i(3,4)]) simp
  show ?thesis
    using binary32_machine_ok drag_camera y p
      front_has_unit_length_up_to_rounding [OF binary32_machine_ok drag_camera y p]
    by blast
qed


lemma normalizeF_NaN: "normalizeF M (FVec3 NaN b NaN) = FVec3 NaN NaN NaN"
  by (cases b) (simp_all add: normalizeF_def dotF_def inversesqrtF_def scaleF_def)

lemma yaw_overflow_arith:
  fixes x1 x2 K F :: real
  assumes "x1 \<le> - (2997 * K / 1000)" "2997 * K / 1000 \<le> x2" "400000 \<le> K" "F * 10 < 59 * K"
  shows "1000 * F < 999 * (x2 - x1)"
proof -
  have "5994 * K / 1000 \<le> x2 - x1" using assms(1,2) by linarith
  then have "999 * (5994 * K / 1000) \<le> 999 * (x2 - x1)" by simp
  moreover have "1000 * F < 5900 * K" using assms(4) by simp
  moreover have "5900 * K \<le> 999 * (5994 * K / 1000)" using assms(3) by simp
  ultimately show ?thesis by linarith
qed

lemma cursor_moves_overflow_yaw:
  fixes K :: real
  assumes K: "400000 \<le> K" "31 * K \<le> FLT_MAX * 10" "FLT_MAX * 10 < 59 * K"
  shows "is_fin (cast_float binary32_machine (Fin (- (3 * K))))"
    and "is_fin (cast_float binary32_machine (Fin (3 * K)))"
    and "is_fin (cast_float binary32_machine (Fin 300))"
    and "is_fin (yawF (cursor_callbackF binary32_machine (camera_initF\<lparr> mouseDownF := True \<rparr>)
           (Fin (- (3 * K))) (Fin 300)))"
    and "is_fin (pitchF (cursor_callbackF binary32_machine (camera_initF\<lparr> mouseDownF := True \<rparr>)
           (Fin (- (3 * K))) (Fin 300)))"
    and "yawF (cursor_callbackF binary32_machine
           (cursor_callbackF binary32_machine (camera_initF\<lparr> mouseDownF := True \<rparr>)
              (Fin (- (3 * K))) (Fin 300))
           (Fin (3 * K)) (Fin 300)) = PInf"
    and "frontF (cursor_callbackF binary32_machine
           (cursor_callbackF binary32_machine (camera_initF\<lparr> mouseDownF := True \<rparr>)
              (Fin (- (3 * K))) (Fin 300))
           (Fin (3 * K)) (Fin 300)) = FVec3 NaN NaN NaN"
proof -
  let ?M = binary32_machine
  let ?c = "camera_initF\<lparr> mouseDownF := True \<rparr>"
  let ?c1 = "cursor_callbackF ?M ?c (Fin (- (3 * K))) (Fin 300)"
  let ?c2 = "cursor_callbackF ?M ?c1 (Fin (3 * K)) (Fin 300)"
  define x1 where "x1 = round_binary32 (- (3 * K))"
  define x2 where "x2 = round_binary32 (3 * K)"
  define y3 where "y3 = round_binary32 300"
  have i: "yawF ?c = Fin (- 90)" "lastXF ?c = Fin 400" "is_fin (pitchF ?c)" "is_fin (lastYF ?c)"
    by (simp_all add: camera_initF_def)
  have lo: "cast_float ?M (Fin (- (3 * K))) = Fin x1"
    unfolding x1_def cast_float.simps using K by (intro binary32_result_fin) simp
  have hi: "cast_float ?M (Fin (3 * K)) = Fin x2"
    unfolding x2_def cast_float.simps using K by (intro binary32_result_fin) simp
  have y300: "cast_float ?M (Fin 300) = Fin y3"
    unfolding y3_def cast_float.simps using K by (intro binary32_result_fin) simp
  show "is_fin (cast_float ?M (Fin (- (3 * K))))" "is_fin (cast_float ?M (Fin (3 * K)))"
    "is_fin (cast_float ?M (Fin 300))"
    by (simp_all only: lo hi y300 is_fin_Fin)
  have "\<bar>x1 - - (3 * K)\<bar> \<le> \<bar>- (3 * K)\<bar> / 1000"
    unfolding x1_def using K(1) by (intro round_binary32_near) simp
  then have e1: "\<bar>x1 + 3 * K\<bar> \<le> 3 * K / 1000" using K(1) by simp
  have "\<bar>x2 - 3 * K\<bar> \<le> \<bar>3 * K\<bar> / 1000"
    unfolding x2_def using K(1) by (intro round_binary32_near) simp
  then have e2: "\<bar>x2 - 3 * K\<bar> \<le> 3 * K / 1000" using K(1) by simp
  have d1: "mouseDownF ?c1"
    unfolding cursor_callbackF_def by (simp add: processMouseMoveF_keeps)
  have l1: "lastXF ?c1 = Fin x1"
    unfolding cursor_callbackF_def processMouseMoveF_yaw(2) [OF drag_camera] by (rule lo)
  have b1: "\<bar>x1 - 400\<bar> \<le> FLT_MAX" using e1 K by linarith
  have f1: "is_fin (yawF ?c1)"
    unfolding cursor_callbackF_def processMouseMoveF_yaw(1) [OF drag_camera] lo i
    using b1 by (rule yaw_update_finite) simp
  then show "is_fin (yawF ?c1)" .
  show "is_fin (pitchF ?c1)"
    unfolding cursor_callbackF_def y300
    by (rule in_range_is_fin, rule processMouseMoveF_pitch_clamped [OF drag_camera i(3,4)]) simp
  obtain y1 where y1: "yawF ?c1 = Fin y1"
    using f1 by (auto simp add: is_fin_def split: fl.splits)
  have "x1 \<le> - (2997 * K / 1000)" using e1 by linarith
  moreover have "2997 * K / 1000 \<le> x2" using e2 by linarith
  ultimately have "1000 * FLT_MAX < 999 * (x2 - x1)" using K(1,3) by (rule yaw_overflow_arith)
  then have over: "fl_result ?M (x2 - x1) = PInf" by (rule binary32_result_overflow)
  show y2: "yawF ?c2 = PInf"
    unfolding cursor_callbackF_def [of _ ?c1] processMouseMoveF_yaw(1) [OF d1] hi l1 y1
    by (simp add: fl_sub_def over fl_inf_def)
  show "frontF ?c2 = FVec3 NaN NaN NaN"
    unfolding cursor_callbackF_def [of _ ?c1] processMouseMoveF_front [OF d1]
    unfolding cursor_callbackF_def [of _ ?c1, symmetric] y2
    by (simp add: radiansF_def fl_inf_def normalizeF_NaN)
qed


text \<open>
  C8 (counterexample to the claim as stated, for every mouse-driven update). On the
  binary32 machine, with the drag active on the camera as initialised, the cursor moves to
  (-3e38, 300) and then to (3e38, 300). Both x coordinates are finite after the cast to
  float, and after the first move the stored yaw and pitch are finite. In the second
  update the x offset overflows to plus infinity, the stored yaw is plus infinity, its
  cosine and sine are NaN, and the three components of the stored front vector are NaN:
  the vector has no length.
\<close>

theorem front_is_NaN_after_yaw_overflow:
  "is_fin (cast_float binary32_machine (Fin (- (3 * 10 ^ 38))))
   \<and> is_fin (cast_float binary32_machine (Fin (3 * 10 ^ 38)))
   \<and> is_fin (cast_float binary32_machine (Fin 300))
   \<and> mouseDownF (camera_initF\<lparr> mouseDownF := True \<rparr>)
   \<and> is_fin (yawF (cursor_callbackF binary32_machine (camera_initF\<lparr> mouseDownF := True \<rparr>)
        (Fin (- (3 * 10 ^ 38))) (Fin 300)))
   \<and> is_fin (pitchF (cursor_callbackF binary32_machine (camera_initF\<lparr> mouseDownF := True \<rparr>)
        (Fin (- (3 * 10 ^ 38))) (Fin 300)))
   \<and> yawF (cursor_callbackF binary32_machine
        (cursor_callbackF binary32_machine (camera_initF\<lparr> mouseDownF := True \<rparr>)
           (Fin (- (3 * 10 ^ 38))) (Fin 300))
        (Fin (3 * 10 ^ 38)) (Fin 300)) = PInf
   \<and> frontF (cursor_callbackF binary32_machine
        (cursor_callbackF binary32_machine (camera_initF\<lparr> mouseDownF := True \<rparr>)
           (Fin (- (3 * 10 ^ 38))) (Fin 300))
        (Fin (3 * 10 ^ 38)) (Fin 300)) = FVec3 NaN NaN NaN"
proof -
  have K: "(400000::real) \<le> 10 ^ 38" "31 * (10::real) ^ 38 \<le> FLT_MAX * 10"
    "FLT_MAX * 10 < 59 * (10::real) ^ 38"
    by (simp_all add: FLT_MAX_def)
  show ?thesis
    using cursor_moves_overflow_yaw [OF K] drag_camera by blast
qed

subsection \<open>The held-key table\<close>

text \<open>
  C10. With the table at its declared size of 1024, the key callback never faults for
  any key code and action: it returns a state, the table keeps its size, a key code
  outside 0..1023 (negative codes included) leaves the table as it was, and a key code
  inside the range writes exactly its own entry, on press and on release only.
\<close>

theorem key_callback_writes_in_bounds_only:
  assumes "length (keys s) = 1024"
  shows "\<exists>s'. key_callback s key scancode action mods = Inr s'
           \<and> length (keys s') = 1024
           \<and> (\<not> (0 \<le> sint key \<and> sint key < 1024) \<longrightarrow> keys s' = keys s)
           \<and> (0 \<le> sint key \<and> sint key < 1024 \<longrightarrow>
                keys s' = (if action = GLFW_PRESS then (keys s)[nat (sint key) := True]
                           else if action = GLFW_RELEASE then (keys s)[nat (sint key) := False]
                           else keys s))"
  using assms by (auto simp add: key_callback_def keys_store_def Let_def)

theorem key_callback_in_bounds_witness:
  "length (keys input_init) = 1024
   \<and> sint GLFW_KEY_UNKNOWN = - 1
   \<and> (\<exists>s'. key_callback input_init GLFW_KEY_UNKNOWN 0 GLFW_PRESS 0 = Inr s'
          \<and> keys s' = keys input_init)"
proof -
  have h: "length (keys input_init) = 1024" by (simp add: input_init_def)
  have k: "sint GLFW_KEY_UNKNOWN = - 1" by (simp add: GLFW_KEY_UNKNOWN_def)
  show ?thesis
    using h k key_callback_writes_in_bounds_only [OF h, of GLFW_KEY_UNKNOWN 0 GLFW_PRESS 0]
    by auto
qed

section \<open>The model transform\<close>

lemma model_m_origin:
  "transform_point (model_m t) (Vec3 0 0 0)
   = Vec4 (ScaleFactor * (cos (t * walkSpeed) * walkRange)) (ScaleFactor * walkAxis) 0 1"
  by (simp add: transform_point_def model_m_def Let_def glm_rotate_def glm_translate_def
      glm_scale_def mat4_identity_def vec4_add_def vec4_scale_def)

text \<open>
  C4 (evaluation of the code). At every frame time t the model matrix sends the local
  origin to x = 3 * (4 * cos (2 * t)), y = 0, z = 0, whatever the rotation angle: the
  translation is applied inside the scaled frame, so the offset on the oscillation axis
  is the scale factor times \<^verbatim>\<open>walkRange * cos(walkSpeed * t)\<close>, not that term itself. At
  t = 1 the two differ, since cos 2 is negative.
\<close>

theorem model_origin_offset_is_scaled:
  "(\<forall>t. transform_point (model_m t) (Vec3 0 0 0) = Vec4 (3 * (4 * cos (2 * t))) 0 0 1)
   \<and> ScaleFactor = 3 \<and> walkRange = 4 \<and> walkSpeed = 2
   \<and> vec4_x (transform_point (model_m 1) (Vec3 0 0 0)) = 12 * cos 2
   \<and> walkRange * cos (walkSpeed * 1) = 4 * cos 2
   \<and> vec4_x (transform_point (model_m 1) (Vec3 0 0 0)) \<noteq> walkRange * cos (walkSpeed * 1)"
proof -
  have "cos (2::real) < 0" by (rule cos_two_less_zero)
  then have "12 * cos (2::real) \<noteq> 4 * cos 2" by simp
  then show ?thesis
    by (simp add: model_m_origin walkRange_def ScaleFactor_def walkAxis_def walkSpeed_def
        mult.commute)
qed

section \<open>The GL objects: start-up\<close>

lemmas gl_ops = glGenTextures_def glGenFramebuffers_def glGenVertexArrays_def glCreateProgram_def
  glBindFramebuffer_def glActiveTexture_def glBindTexture_def bound_texture_def glTexImage2D_def
  glGenerateMipmap_def glTexParameteri_def glFramebufferTexture2D_def glUseProgram_def
  glUniform1i_def glDraw_def

lemma upt_0_2: "[0..<2] = [0, Suc 0]"
  by (simp add: upt_rec)

lemma BloomFBO_init_names:
  "fst (BloomFBO_init w h g) =
     \<lparr> hdrFBO = Suc (fbo_names g),
       colorBuffers = [Suc (tex_names g), Suc (Suc (tex_names g))],
       pingpongFBO = [Suc (Suc (fbo_names g)), Suc (Suc (Suc (fbo_names g)))],
       pingpongColorbuffers =
         [Suc (Suc (Suc (tex_names g))), Suc (Suc (Suc (Suc (tex_names g))))],
       width = w, height = h \<rparr>"
  by (simp add: BloomFBO_init_def Let_def split_def gl_ops upt_0_2 init_hdr_surface_def
      init_pingpong_surface_def)

lemma BloomFBO_init_attachments:
  "color_attachment (snd (BloomFBO_init w h g)) =
     (color_attachment g)
       (Suc (fbo_names g) := (color_attachment g (Suc (fbo_names g)))
          (0 := Suc (tex_names g), 1 := Suc (Suc (tex_names g))),
        Suc (Suc (fbo_names g)) := (color_attachment g (Suc (Suc (fbo_names g))))
          (0 := Suc (Suc (Suc (tex_names g)))),
        Suc (Suc (Suc (fbo_names g))) := (color_attachment g (Suc (Suc (Suc (fbo_names g)))))
          (0 := Suc (Suc (Suc (Suc (tex_names g))))))"
  by (simp add: BloomFBO_init_def Let_def split_def gl_ops upt_0_2 init_hdr_surface_def
      init_pingpong_surface_def)

lemma BloomFBO_init_other:
  "uniforms (snd (BloomFBO_init w h g)) = uniforms g"
  "tex_names (snd (BloomFBO_init w h g)) = tex_names g + 4"
  "\<And>t. t \<le> tex_names g \<Longrightarrow> tex_level0 (snd (BloomFBO_init w h g)) t = tex_level0 g t"
  by (simp_all add: BloomFBO_init_def Let_def split_def gl_ops upt_0_2 init_hdr_surface_def
      init_pingpong_surface_def)

lemma loadTexture_fields:
  "uniforms (snd (loadTexture stbi path srgb g)) = uniforms g"
  "prog_names (snd (loadTexture stbi path srgb g)) = prog_names g"
  "fbo_names (snd (loadTexture stbi path srgb g)) = fbo_names g"
  "color_attachment (snd (loadTexture stbi path srgb g)) = color_attachment g"
  by (simp_all add: loadTexture_def Let_def split_def gl_ops split: option.splits)

lemma loadTexture_names:
  "tex_names g \<le> tex_names (snd (loadTexture stbi path srgb g))"
  "t \<le> tex_names g \<Longrightarrow> tex_level0 (snd (loadTexture stbi path srgb g)) t = tex_level0 g t"
  by (simp_all add: loadTexture_def Let_def split_def gl_ops split: option.splits)

lemma loadTexture_fail:
  "stbi path = None \<Longrightarrow> loadTexture stbi path srgb g = (0, g)"
  by (simp add: loadTexture_def)

lemma load_materials_fields:
  "uniforms (snd (load_materials stbi g)) = uniforms g"
  "prog_names (snd (load_materials stbi g)) = prog_names g"
  "fbo_names (snd (load_materials stbi g)) = fbo_names g"
  "color_attachment (snd (load_materials stbi g)) = color_attachment g"
  by (simp_all add: load_materials_def Let_def split_def loadTexture_fields gl_ops)

lemma bloom_init_inv:
  assumes "fbo_names g = 0" "color_attachment g = (\<lambda>f a. 0)" "uniforms g = (\<lambda>p n. None)"
  shows "frame_inv (tex_names g)
           \<lparr> progs = \<lparr> pbrProg = Suc 0, brightProg = Suc (Suc 0), blurProg = Suc (Suc (Suc 0)),
                       combineProg = Suc (Suc (Suc (Suc 0))) \<rparr>,
             mesh = m, mats = T, bloomFBO = fst (BloomFBO_init SCR_W SCR_H g) \<rparr>
           (bind_default_uniforms
              \<lparr> pbrProg = Suc 0, brightProg = Suc (Suc 0), blurProg = Suc (Suc (Suc 0)),
                combineProg = Suc (Suc (Suc (Suc 0))) \<rparr>
              (snd (BloomFBO_init SCR_W SCR_H g)))"
  using assms
  by (simp add: frame_inv_def BloomFBO_init_names BloomFBO_init_attachments BloomFBO_init_other
        bind_default_uniforms_def Let_def glUseProgram_def glUniform1i_def eval_nat_numeral)

text \<open>
  The state in which the framebuffer graph is built, and the shape of what start-up
  returns when none of the three fatal checks fails.
\<close>

lemma main_setup_shape:
  fixes env :: environment
  defines "g4 \<equiv> snd (createProgram (snd (createProgram (snd (createProgram
                   (snd (createProgram gl_init)))))))"
  defines "g5 \<equiv> snd (loadObjToMesh (obj_indices env) g4)"
  defines "g7 \<equiv> snd (initQuad (snd (load_materials (stbi_load env) g5)))"
  defines "P \<equiv> \<lparr> pbrProg = Suc 0, brightProg = Suc (Suc 0), blurProg = Suc (Suc (Suc 0)),
                   combineProg = Suc (Suc (Suc (Suc 0))) \<rparr>"
  assumes "glfwInit_ok env" "window_created env" "glad_loaded env"
  shows "main_setup env =
           Inr (\<lparr> progs = P, mesh = snd (fst (loadObjToMesh (obj_indices env) g4)),
                  mats = fst (load_materials (stbi_load env) g5),
                  bloomFBO = fst (BloomFBO_init SCR_W SCR_H g7) \<rparr>,
                bind_default_uniforms P (snd (BloomFBO_init SCR_W SCR_H g7)))"
  using assms(5-7) unfolding g4_def g5_def g7_def P_def
  by (simp add: main_setup_def Let_def split_def createProgram_def glCreateProgram_def gl_init_def)

lemma main_setup_inv:
  assumes "glfwInit_ok env" "window_created env" "glad_loaded env"
  shows "\<exists>A g. main_setup env = Inr (A, g) \<and> frame_inv (tex_names g - 4) A g"
proof -
  let ?g7 = "snd (initQuad (snd (load_materials (stbi_load env)
               (snd (loadObjToMesh (obj_indices env)
                 (snd (createProgram (snd (createProgram (snd (createProgram
                   (snd (createProgram gl_init)))))))))))))"
  let ?P = "\<lparr> pbrProg = Suc 0, brightProg = Suc (Suc 0), blurProg = Suc (Suc (Suc 0)),
              combineProg = Suc (Suc (Suc (Suc 0))) \<rparr>"
  have f7: "fbo_names ?g7 = 0" "color_attachment ?g7 = (\<lambda>f a. 0)" "uniforms ?g7 = (\<lambda>p n. None)"
    by (simp_all add: initQuad_def load_materials_fields loadObjToMesh_def createProgram_def
        gl_init_def gl_ops Let_def split_def split: option.splits)
  have n: "tex_names (bind_default_uniforms ?P (snd (BloomFBO_init SCR_W SCR_H ?g7))) - 4
           = tex_names ?g7"
    by (simp add: bind_default_uniforms_def Let_def glUseProgram_def glUniform1i_def
        BloomFBO_init_other)
  show ?thesis
    using main_setup_shape [OF assms] bloom_init_inv [OF f7] n by simp
qed

section \<open>The GL objects: the blur loop\<close>

lemma blur_iteration_draws:
  "draws (snd (blur_iteration A i (even i, g))) = draws g @ [blur_draw A g i]"
  by (simp add: blur_iteration_def Let_def gl_ops blur_draw_def)

lemma blur_iteration_blur_draw:
  "blur_draw A (snd (blur_iteration A i (h, g))) = blur_draw A g"
  by (rule ext) (simp add: blur_iteration_def Let_def gl_ops blur_draw_def)

lemma blur_iteration_pair:
  "blur_iteration A i (even i, g) = (even (Suc i), snd (blur_iteration A i (even i, g)))"
  by (simp add: blur_iteration_def Let_def)

lemma blur_loop_step:
  "i < n \<Longrightarrow> blur_loop A i n (even i, g)
             = blur_loop A (Suc i) n (even (Suc i), snd (blur_iteration A i (even i, g)))"
  by (subst blur_loop.simps, subst blur_iteration_pair) simp

text \<open>The log after the loop: one record per iteration, in order.\<close>

lemma blur_loop_draws:
  "draws (snd (blur_loop A i n (even i, g))) = draws g @ map (blur_draw A g) [i..<n]"
proof (induction "n - i" arbitrary: i g)
  case 0
  then show ?case by (subst blur_loop.simps) simp
next
  case (Suc k)
  then have lt: "i < n" and k: "k = n - Suc i" by arith+
  show ?case
    using Suc.hyps(1) [OF k, of "snd (blur_iteration A i (even i, g))"] lt
    by (simp add: blur_loop_step blur_iteration_draws blur_iteration_blur_draw upt_conv_Cons)
qed

text \<open>The flag after the loop: it has been flipped once per iteration.\<close>

lemma blur_loop_flag:
  "i \<le> n \<Longrightarrow> fst (blur_loop A i n (even i, g)) = even n"
proof (induction "n - i" arbitrary: i g)
  case 0
  then show ?case by (subst blur_loop.simps) simp
next
  case (Suc k)
  then have lt: "i < n" and k: "k = n - Suc i" by arith+
  show ?case
    using Suc.hyps(1) [OF k, of "snd (blur_iteration A i (even i, g))"] lt
    by (simp add: blur_loop_step)
qed

lemma blur_loop_draws0:
  "draws (snd (blur_loop A 0 n (True, g))) = draws g @ map (blur_draw A g) [0..<n]"
  using blur_loop_draws [of A 0 n g] by simp

lemma blur_loop_flag0: "fst (blur_loop A 0 n (True, g)) = even n"
  using blur_loop_flag [of 0 n A g] by simp

lemma blur_iteration_fields:
  "color_attachment (snd (blur_iteration A i hg)) = color_attachment (snd hg)"
  "current_program (snd (blur_iteration A i hg)) = current_program (snd hg)"
  "tex_level0 (snd (blur_iteration A i hg)) = tex_level0 (snd hg)"
  "name \<noteq> ''horizontal'' \<Longrightarrow>
     uniforms (snd (blur_iteration A i hg)) p name = uniforms (snd hg) p name"
  by (simp_all add: blur_iteration_def Let_def gl_ops)

lemma blur_loop_fields:
  "color_attachment (snd (blur_loop A i n hg)) = color_attachment (snd hg)
   \<and> current_program (snd (blur_loop A i n hg)) = current_program (snd hg)
   \<and> tex_level0 (snd (blur_loop A i n hg)) = tex_level0 (snd hg)
   \<and> (name \<noteq> ''horizontal'' \<longrightarrow>
        uniforms (snd (blur_loop A i n hg)) p name = uniforms (snd hg) p name)"
proof (induction A i n hg rule: blur_loop.induct)
  case (1 A i n hg)
  show ?case
  proof (cases "i < n")
    case True
    then show ?thesis
      using 1 by (subst (1 2 3 4) blur_loop.simps) (simp add: blur_iteration_fields)
  next
    case False
    then show ?thesis by (subst (1 2 3 4) blur_loop.simps) simp
  qed
qed

section \<open>The GL objects: one frame\<close>

lemma frame_blur_draws:
  assumes "frame_inv n A g"
  shows "\<exists>g3. current_program g3 = 3 \<and> uniforms g3 3 ''image'' = Some 0
            \<and> pass_draws 3 (render_passes N A g) = map (blur_draw A g3) [0..<N]"
proof -
  let ?g3 = "glUseProgram 3 (bright_pass A (geometry_pass A (g\<lparr> draws := [] \<rparr>)))"
  have P: "progs A = \<lparr> pbrProg = 1, brightProg = 2, blurProg = 3, combineProg = 4 \<rparr>"
    using assms by (simp add: frame_inv_def)
  have u: "uniforms g 3 ''image'' = Some 0"
    using assms by (simp add: frame_inv_def)
  have a: "current_program ?g3 = 3" by (simp add: gl_ops)
  have b: "uniforms ?g3 3 ''image'' = Some 0"
    using u by (simp add: gl_ops bright_pass_def geometry_pass_def Let_def)
  have d3: "filter (\<lambda>d. draw_program d = 3) (draws ?g3) = []"
    using P by (simp add: gl_ops bright_pass_def geometry_pass_def Let_def)
  have c: "pass_draws 3 (render_passes N A g) = map (blur_draw A ?g3) [0..<N]"
    using P a d3
    by (simp add: pass_draws_def render_passes_def Let_def split_def composite_pass_def
        glDraw_def glBindTexture_def glActiveTexture_def glUseProgram_def glBindFramebuffer_def
        blur_loop_draws0 blur_loop_fields filter_map o_def blur_draw_def)
  show ?thesis using a b c by blast
qed

lemma frame_bright_draws:
  assumes "frame_inv n A g"
  shows "\<exists>b. pass_draws 2 (render_passes N A g) = [b]
            \<and> draw_framebuffer b = 2 \<and> draw_textures b 0 = Suc (Suc n)
            \<and> draw_uniforms b ''scene'' = Some 0"
proof -
  let ?g1 = "geometry_pass A (g\<lparr> draws := [] \<rparr>)"
  let ?g3 = "glUseProgram 3 (bright_pass A ?g1)"
  have P: "progs A = \<lparr> pbrProg = 1, brightProg = 2, blurProg = 3, combineProg = 4 \<rparr>"
    and B: "bloomFBO A = \<lparr> hdrFBO = 1, colorBuffers = [Suc n, Suc (Suc n)], pingpongFBO = [2, 3],
         pingpongColorbuffers = [Suc (Suc (Suc n)), Suc (Suc (Suc (Suc n)))],
         width = SCR_W, height = SCR_H \<rparr>"
    and u: "uniforms g 2 ''scene'' = Some 0"
    using assms by (simp_all add: frame_inv_def)
  have a: "current_program ?g3 = 3" by (simp add: gl_ops)
  have d1: "filter (\<lambda>d. draw_program d = 2) (draws ?g1) = []"
    using P by (simp add: gl_ops geometry_pass_def Let_def)
  have "pass_draws 2 (render_passes N A g) =
          [\<lparr> draw_program = 2, draw_framebuffer = 2,
             draw_textures = (texture_binding ?g1)(0 := Suc (Suc n)),
             draw_uniforms = uniforms ?g1 2 \<rparr>]"
    using P B a d1
    by (simp add: pass_draws_def render_passes_def Let_def split_def composite_pass_def
        bright_pass_def
        glDraw_def glBindTexture_def glActiveTexture_def glUseProgram_def glBindFramebuffer_def
        blur_loop_draws0 blur_loop_fields filter_map o_def blur_draw_def)
  moreover have "uniforms ?g1 2 ''scene'' = Some 0"
    using u by (simp add: gl_ops geometry_pass_def Let_def)
  ultimately show ?thesis by simp
qed

lemma frame_composite_draws:
  assumes "frame_inv n A g"
  shows "\<exists>c. pass_draws 4 (render_passes N A g) = [c]
            \<and> draw_framebuffer c = 0 \<and> draw_textures c 0 = Suc n
            \<and> draw_textures c 1 = [Suc (Suc (Suc n)), Suc (Suc (Suc (Suc n)))] ! of_bool (odd N)
            \<and> draw_uniforms c ''scene'' = Some 0 \<and> draw_uniforms c ''bloomBlur'' = Some 1"
proof -
  let ?g1 = "geometry_pass A (g\<lparr> draws := [] \<rparr>)"
  let ?g3 = "glUseProgram 3 (bright_pass A ?g1)"
  let ?g4 = "snd (blur_loop A 0 N (True, ?g3))"
  have P: "progs A = \<lparr> pbrProg = 1, brightProg = 2, blurProg = 3, combineProg = 4 \<rparr>"
    and B: "bloomFBO A = \<lparr> hdrFBO = 1, colorBuffers = [Suc n, Suc (Suc n)], pingpongFBO = [2, 3],
         pingpongColorbuffers = [Suc (Suc (Suc n)), Suc (Suc (Suc (Suc n)))],
         width = SCR_W, height = SCR_H \<rparr>"
    and u: "uniforms g 4 ''scene'' = Some 0" "uniforms g 4 ''bloomBlur'' = Some 1"
    using assms by (simp_all add: frame_inv_def)
  have a: "current_program ?g3 = 3" by (simp add: gl_ops)
  have d3: "filter (\<lambda>d. draw_program d = 4) (draws ?g3) = []"
    using P by (simp add: gl_ops bright_pass_def geometry_pass_def Let_def)
  have u4: "uniforms ?g4 4 ''scene'' = Some 0" "uniforms ?g4 4 ''bloomBlur'' = Some 1"
    using u by (simp_all add: blur_loop_fields gl_ops geometry_pass_def bright_pass_def Let_def)
  have "pass_draws 4 (render_passes N A g) =
          [\<lparr> draw_program = 4, draw_framebuffer = 0,
             draw_textures = (texture_binding ?g4)
               (0 := Suc n, 1 := [Suc (Suc (Suc n)), Suc (Suc (Suc (Suc n)))] ! of_bool (odd N)),
             draw_uniforms = uniforms ?g4 4 \<rparr>]"
    using P B a d3
    by (simp add: pass_draws_def render_passes_def Let_def split_def composite_pass_def
        glDraw_def glBindTexture_def glActiveTexture_def glUseProgram_def glBindFramebuffer_def
        blur_loop_draws0 blur_loop_flag0 blur_loop_fields filter_map o_def blur_draw_def)
  then show ?thesis using u4 by simp
qed

lemma frame_inv_preserved:
  assumes "frame_inv n A g"
  shows "frame_inv n A (render_passes N A g)"
  using assms
  by (simp add: frame_inv_def render_passes_def Let_def split_def composite_pass_def
        glDraw_def glBindTexture_def glActiveTexture_def glUseProgram_def glBindFramebuffer_def
        glUniform1i_def bright_pass_def geometry_pass_def blur_loop_fields)

lemma frame_inv_frames:
  "frame_inv n A g \<Longrightarrow> frame_inv n A ((render_passes N A ^^ k) g)"
  by (induction k) (simp_all add: frame_inv_preserved)

lemma frame_blur_pass:
  assumes "frame_inv n A g" "j < N"
  shows "length (pass_draws 3 (render_passes N A g)) = N"
    and "draw_framebuffer (pass_draws 3 (render_passes N A g) ! j) = (if even j then 3 else 2)"
    and "sampled_texture (pass_draws 3 (render_passes N A g) ! j) ''image''
         = Some (if even j then Suc (Suc (Suc n)) else Suc (Suc (Suc (Suc n))))"
    and "draw_uniforms (pass_draws 3 (render_passes N A g) ! j) ''horizontal''
         = Some (if even j then 1 else 0)"
proof -
  obtain g3 where g3: "current_program g3 = 3" "uniforms g3 3 ''image'' = Some 0"
    "pass_draws 3 (render_passes N A g) = map (blur_draw A g3) [0..<N]"
    using frame_blur_draws [OF assms(1)] by blast
  have B: "bloomFBO A = \<lparr> hdrFBO = 1, colorBuffers = [Suc n, Suc (Suc n)], pingpongFBO = [2, 3],
         pingpongColorbuffers = [Suc (Suc (Suc n)), Suc (Suc (Suc (Suc n)))],
         width = SCR_W, height = SCR_H \<rparr>"
    using assms(1) by (simp add: frame_inv_def)
  show "length (pass_draws 3 (render_passes N A g)) = N"
    by (simp add: g3)
  show "draw_framebuffer (pass_draws 3 (render_passes N A g) ! j) = (if even j then 3 else 2)"
    using assms(2) by (simp add: g3 blur_draw_def B)
  show "sampled_texture (pass_draws 3 (render_passes N A g) ! j) ''image''
         = Some (if even j then Suc (Suc (Suc n)) else Suc (Suc (Suc (Suc n))))"
    using assms(2) by (simp add: g3 blur_draw_def B sampled_texture_def)
  show "draw_uniforms (pass_draws 3 (render_passes N A g) ! j) ''horizontal''
         = Some (if even j then 1 else 0)"
    using assms(2) by (simp add: g3 blur_draw_def)
qed

lemma frame_inv_attachments:
  assumes "frame_inv n A g"
  shows "color_attachment g 2 a = (if a = 0 then Suc (Suc (Suc n)) else 0)"
    and "color_attachment g 3 a = (if a = 0 then Suc (Suc (Suc (Suc n))) else 0)"
    and "color_attachment g 1 a = (if a = 0 then Suc n else if a = 1 then Suc (Suc n) else 0)"
    and "color_attachment g 0 a = 0"
  using assms by (simp_all add: frame_inv_def)

lemma frame_inv_names:
  assumes "frame_inv n A g"
  shows "brightProg (progs A) = 2" "blurProg (progs A) = 3" "combineProg (progs A) = 4"
    "pingpongColorbuffers (bloomFBO A) = [Suc (Suc (Suc n)), Suc (Suc (Suc (Suc n)))]"
    "pingpongFBO (bloomFBO A) = [2, 3]"
  using assms by (simp_all add: frame_inv_def)

text \<open>
  C2 (as amended). Start-up succeeds whenever the three fatal checks pass, and in every
  frame, for every number N of blur passes and every iteration i below N: there are N
  blur draws after one bright-pass draw; the axis uniform of iteration i is 1 when i is
  even and 0 when i is odd; iteration 0 reads ping-pong surface 0, which is the surface
  the bright pass wrote; and for i above 0 iteration i reads the surface that iteration
  i - 1 wrote, which is not the surface iteration i writes.
\<close>

theorem blur_passes_alternate:
  assumes "glfwInit_ok env" "window_created env" "glad_loaded env"
  shows "\<exists>A g0. main_setup env = Inr (A, g0) \<and>
     (\<forall>k i. i < N \<longrightarrow>
        (let g' = render_passes N A ((render_passes N A ^^ k) g0);
             blur = pass_draws (blurProg (progs A)) g';
             bright = pass_draws (brightProg (progs A)) g'
         in length blur = N \<and> length bright = 1
          \<and> draw_uniforms (blur ! i) ''horizontal'' = Some (if even i then 1 else 0)
          \<and> (i = 0 \<longrightarrow>
               sampled_texture (blur ! i) ''image'' = Some (pingpongColorbuffers (bloomFBO A) ! 0)
             \<and> sampled_texture (blur ! i) ''image''
                 = Some (color_attachment g' (draw_framebuffer (bright ! 0)) 0))
          \<and> (0 < i \<longrightarrow>
               sampled_texture (blur ! i) ''image''
                 = Some (color_attachment g' (draw_framebuffer (blur ! (i - 1))) 0)
             \<and> sampled_texture (blur ! i) ''image''
                 \<noteq> Some (color_attachment g' (draw_framebuffer (blur ! i)) 0))))"
proof -
  obtain A g0 where s: "main_setup env = Inr (A, g0)" and inv: "frame_inv (tex_names g0 - 4) A g0"
    using main_setup_inv [OF assms] by blast
  let ?n = "tex_names g0 - 4"
  have "\<forall>k i. i < N \<longrightarrow>
        (let g' = render_passes N A ((render_passes N A ^^ k) g0);
             blur = pass_draws (blurProg (progs A)) g';
             bright = pass_draws (brightProg (progs A)) g'
         in length blur = N \<and> length bright = 1
          \<and> draw_uniforms (blur ! i) ''horizontal'' = Some (if even i then 1 else 0)
          \<and> (i = 0 \<longrightarrow>
               sampled_texture (blur ! i) ''image'' = Some (pingpongColorbuffers (bloomFBO A) ! 0)
             \<and> sampled_texture (blur ! i) ''image''
                 = Some (color_attachment g' (draw_framebuffer (bright ! 0)) 0))
          \<and> (0 < i \<longrightarrow>
               sampled_texture (blur ! i) ''image''
                 = Some (color_attachment g' (draw_framebuffer (blur ! (i - 1))) 0)
             \<and> sampled_texture (blur ! i) ''image''
                 \<noteq> Some (color_attachment g' (draw_framebuffer (blur ! i)) 0)))"
  proof (intro allI impI)
    fix k i assume i: "i < N"
    let ?g = "(render_passes N A ^^ k) g0"
    have invk: "frame_inv ?n A ?g" by (rule frame_inv_frames [OF inv])
    have inv': "frame_inv ?n A (render_passes N A ?g)" by (rule frame_inv_preserved [OF invk])
    obtain b where b: "pass_draws 2 (render_passes N A ?g) = [b]" "draw_framebuffer b = 2"
      using frame_bright_draws [OF invk] by blast
    have i1: "0 < i \<Longrightarrow> i - 1 < N" using i by arith
    show "let g' = render_passes N A ?g;
             blur = pass_draws (blurProg (progs A)) g';
             bright = pass_draws (brightProg (progs A)) g'
         in length blur = N \<and> length bright = 1
          \<and> draw_uniforms (blur ! i) ''horizontal'' = Some (if even i then 1 else 0)
          \<and> (i = 0 \<longrightarrow>
               sampled_texture (blur ! i) ''image'' = Some (pingpongColorbuffers (bloomFBO A) ! 0)
             \<and> sampled_texture (blur ! i) ''image''
                 = Some (color_attachment g' (draw_framebuffer (bright ! 0)) 0))
          \<and> (0 < i \<longrightarrow>
               sampled_texture (blur ! i) ''image''
                 = Some (color_attachment g' (draw_framebuffer (blur ! (i - 1))) 0)
             \<and> sampled_texture (blur ! i) ''image''
                 \<noteq> Some (color_attachment g' (draw_framebuffer (blur ! i)) 0))"
      unfolding Let_def frame_inv_names [OF invk]
      using frame_blur_pass [OF invk i] frame_blur_pass(2) [OF invk i1] b
        frame_inv_attachments [OF inv'] i
      by (cases "even i") auto
  qed
  with s show ?thesis by blast
qed

lemma render_frame_eq: "render_frame = render_passes 15"
  by (rule ext)+ (simp add: render_frame_def)

lemma no_assets_ok:
  "glfwInit_ok env_no_assets" "window_created env_no_assets" "glad_loaded env_no_assets"
  by (simp_all add: env_no_assets_def)

lemma no_assets_setup: "main_setup env_no_assets = Inr (app_no_assets, gl_no_assets)"
proof -
  obtain A g where "main_setup env_no_assets = Inr (A, g)"
    using main_setup_inv [OF no_assets_ok] by blast
  then show ?thesis by (simp add: app_no_assets_def gl_no_assets_def)
qed

lemma no_assets_tex_names: "tex_names gl_no_assets = 5"
  unfolding gl_no_assets_def main_setup_shape [OF no_assets_ok]
  by (simp add: env_no_assets_def load_materials_def loadTexture_def Let_def split_def
      initQuad_def loadObjToMesh_def createProgram_def gl_init_def gl_ops
      bind_default_uniforms_def BloomFBO_init_other)

lemma no_assets_inv: "frame_inv 1 app_no_assets gl_no_assets"
proof -
  obtain A g where "main_setup env_no_assets = Inr (A, g)" "frame_inv (tex_names g - 4) A g"
    using main_setup_inv [OF no_assets_ok] by blast
  then have "frame_inv (tex_names gl_no_assets - 4) app_no_assets gl_no_assets"
    using no_assets_setup by simp
  then show ?thesis by (simp add: no_assets_tex_names)
qed

text \<open>
  C2 (counterexample to the claim as stated). With no asset file present and two blur
  passes, the ping-pong surfaces are textures 4 and 5, attached to framebuffers 2 and
  3. Iteration 0 writes framebuffer 3, that is surface 5; the surface iteration 0 did
  not write is 4. Iteration 1 reads surface 5, not 4.
\<close>

theorem blur_read_is_previous_write:
  "main_setup env_no_assets = Inr (app_no_assets, gl_no_assets)
   \<and> pingpongFBO (bloomFBO app_no_assets) = [2, 3]
   \<and> pingpongColorbuffers (bloomFBO app_no_assets) = [4, 5]
   \<and> color_attachment (render_passes 2 app_no_assets gl_no_assets) 2 0 = 4
   \<and> color_attachment (render_passes 2 app_no_assets gl_no_assets) 3 0 = 5
   \<and> draw_framebuffer (pass_draws (blurProg (progs app_no_assets))
        (render_passes 2 app_no_assets gl_no_assets) ! 0) = 3
   \<and> sampled_texture (pass_draws (blurProg (progs app_no_assets))
        (render_passes 2 app_no_assets gl_no_assets) ! 1) ''image'' = Some 5
   \<and> sampled_texture (pass_draws (blurProg (progs app_no_assets))
        (render_passes 2 app_no_assets gl_no_assets) ! 1) ''image'' \<noteq> Some 4"
proof -
  note inv1 = no_assets_inv
  have inv': "frame_inv 1 app_no_assets (render_passes 2 app_no_assets gl_no_assets)"
    by (rule frame_inv_preserved [OF inv1])
  have "pingpongFBO (bloomFBO app_no_assets) = [2, 3]"
    "pingpongColorbuffers (bloomFBO app_no_assets) = [4, 5]"
    "color_attachment (render_passes 2 app_no_assets gl_no_assets) 2 0 = 4"
    "color_attachment (render_passes 2 app_no_assets gl_no_assets) 3 0 = 5"
    "draw_framebuffer (pass_draws (blurProg (progs app_no_assets))
        (render_passes 2 app_no_assets gl_no_assets) ! 0) = 3"
    "sampled_texture (pass_draws (blurProg (progs app_no_assets))
        (render_passes 2 app_no_assets gl_no_assets) ! 1) ''image'' = Some 5"
    using frame_inv_names [OF inv1] frame_inv_attachments [OF inv']
      frame_blur_pass(2) [OF inv1, of 0 2] frame_blur_pass(3) [OF inv1, of 1 2]
    by (simp_all add: eval_nat_numeral)
  with no_assets_setup show ?thesis by auto
qed

theorem blur_passes_alternate_witness:
  "glfwInit_ok env_no_assets \<and> window_created env_no_assets \<and> glad_loaded env_no_assets
   \<and> main_setup env_no_assets = Inr (app_no_assets, gl_no_assets)
   \<and> length (pass_draws (blurProg (progs app_no_assets))
        (render_passes 3 app_no_assets (render_passes 3 app_no_assets gl_no_assets))) = 3
   \<and> draw_uniforms (pass_draws (blurProg (progs app_no_assets))
        (render_passes 3 app_no_assets (render_passes 3 app_no_assets gl_no_assets)) ! 2)
          ''horizontal'' = Some 1
   \<and> draw_uniforms (pass_draws (blurProg (progs app_no_assets))
        (render_passes 3 app_no_assets (render_passes 3 app_no_assets gl_no_assets)) ! 1)
          ''horizontal'' = Some 0"
proof -
  obtain A g0 where s: "main_setup env_no_assets = Inr (A, g0)"
    and a: "\<forall>k i. i < 3 \<longrightarrow>
        (let g' = render_passes 3 A ((render_passes 3 A ^^ k) g0);
             blur = pass_draws (blurProg (progs A)) g';
             bright = pass_draws (brightProg (progs A)) g'
         in length blur = 3 \<and> length bright = 1
          \<and> draw_uniforms (blur ! i) ''horizontal'' = Some (if even i then 1 else 0)
          \<and> (i = 0 \<longrightarrow>
               sampled_texture (blur ! i) ''image'' = Some (pingpongColorbuffers (bloomFBO A) ! 0)
             \<and> sampled_texture (blur ! i) ''image''
                 = Some (color_attachment g' (draw_framebuffer (bright ! 0)) 0))
          \<and> (0 < i \<longrightarrow>
               sampled_texture (blur ! i) ''image''
                 = Some (color_attachment g' (draw_framebuffer (blur ! (i - 1))) 0)
             \<and> sampled_texture (blur ! i) ''image''
                 \<noteq> Some (color_attachment g' (draw_framebuffer (blur ! i)) 0)))"
    using blur_passes_alternate [OF no_assets_ok, of 3] by blast
  have e: "A = app_no_assets" "g0 = gl_no_assets"
    using s no_assets_setup by simp_all
  have "length (pass_draws (blurProg (progs A)) (render_passes 3 A (render_passes 3 A g0))) = 3"
    "draw_uniforms (pass_draws (blurProg (progs A))
              (render_passes 3 A (render_passes 3 A g0)) ! 2) ''horizontal'' = Some 1"
    "draw_uniforms (pass_draws (blurProg (progs A))
              (render_passes 3 A (render_passes 3 A g0)) ! 1) ''horizontal'' = Some 0"
    using a [rule_format, of 2 1] a [rule_format, of 1 1] by (simp_all add: Let_def)
  with no_assets_setup no_assets_ok show ?thesis unfolding e by blast
qed

text \<open>
  C1. With the 15 blur passes of the source and the flag starting at true, the flag is
  false after the loop, so the composite pass binds \<^verbatim>\<open>pingpongColorbuffers[1]\<close> to unit 1,
  the unit of its sampler \<^verbatim>\<open>bloomBlur\<close>; the last blur iteration (index 14) wrote
  \<^verbatim>\<open>pingpongFBO[1]\<close>, and the texture the composite pass reads is the colour attachment of
  that framebuffer. This holds in every frame after a start-up that passes the three
  fatal checks.
\<close>

theorem composite_reads_last_blur_output:
  assumes "glfwInit_ok env" "window_created env" "glad_loaded env"
  shows "\<exists>A g0. main_setup env = Inr (A, g0)
     \<and> (\<forall>g. fst (blur_loop A 0 15 (True, g)) = False)
     \<and> (\<forall>k. let g' = render_frame A ((render_frame A ^^ k) g0);
               blur = pass_draws (blurProg (progs A)) g';
               comp = pass_draws (combineProg (progs A)) g'
           in length blur = 15 \<and> length comp = 1
            \<and> draw_framebuffer (blur ! 14) = pingpongFBO (bloomFBO A) ! 1
            \<and> sampled_texture (comp ! 0) ''bloomBlur''
                = Some (pingpongColorbuffers (bloomFBO A) ! 1)
            \<and> sampled_texture (comp ! 0) ''bloomBlur''
                = Some (color_attachment g' (draw_framebuffer (blur ! 14)) 0))"
proof -
  obtain A g0 where s: "main_setup env = Inr (A, g0)" and inv: "frame_inv (tex_names g0 - 4) A g0"
    using main_setup_inv [OF assms] by blast
  let ?n = "tex_names g0 - 4"
  have flag: "\<forall>g. fst (blur_loop A 0 15 (True, g)) = False"
    by (simp add: blur_loop_flag0)
  have "\<forall>k. let g' = render_frame A ((render_frame A ^^ k) g0);
               blur = pass_draws (blurProg (progs A)) g';
               comp = pass_draws (combineProg (progs A)) g'
           in length blur = 15 \<and> length comp = 1
            \<and> draw_framebuffer (blur ! 14) = pingpongFBO (bloomFBO A) ! 1
            \<and> sampled_texture (comp ! 0) ''bloomBlur''
                = Some (pingpongColorbuffers (bloomFBO A) ! 1)
            \<and> sampled_texture (comp ! 0) ''bloomBlur''
                = Some (color_attachment g' (draw_framebuffer (blur ! 14)) 0)"
  proof
    fix k
    let ?g = "(render_passes 15 A ^^ k) g0"
    have invk: "frame_inv ?n A ?g" by (rule frame_inv_frames [OF inv])
    have inv': "frame_inv ?n A (render_passes 15 A ?g)" by (rule frame_inv_preserved [OF invk])
    obtain c where c: "pass_draws 4 (render_passes 15 A ?g) = [c]"
      "draw_textures c 1 = [Suc (Suc (Suc ?n)), Suc (Suc (Suc (Suc ?n)))] ! of_bool (odd (15::nat))"
      "draw_uniforms c ''bloomBlur'' = Some 1"
      using frame_composite_draws [OF invk, of 15] by blast
    have l: "(14::nat) < 15" by simp
    show "let g' = render_frame A ((render_frame A ^^ k) g0);
               blur = pass_draws (blurProg (progs A)) g';
               comp = pass_draws (combineProg (progs A)) g'
           in length blur = 15 \<and> length comp = 1
            \<and> draw_framebuffer (blur ! 14) = pingpongFBO (bloomFBO A) ! 1
            \<and> sampled_texture (comp ! 0) ''bloomBlur''
                = Some (pingpongColorbuffers (bloomFBO A) ! 1)
            \<and> sampled_texture (comp ! 0) ''bloomBlur''
                = Some (color_attachment g' (draw_framebuffer (blur ! 14)) 0)"
      unfolding Let_def render_frame_eq frame_inv_names [OF invk]
      using frame_blur_pass(1,2) [OF invk l] c frame_inv_attachments [OF inv']
      by (simp add: sampled_texture_def)
  qed
  with s flag show ?thesis by blast
qed

theorem composite_reads_last_blur_output_witness:
  "glfwInit_ok env_no_assets \<and> window_created env_no_assets \<and> glad_loaded env_no_assets
   \<and> main_setup env_no_assets = Inr (app_no_assets, gl_no_assets)
   \<and> length (pass_draws (blurProg (progs app_no_assets))
        (render_frame app_no_assets gl_no_assets)) = 15
   \<and> sampled_texture (pass_draws (combineProg (progs app_no_assets))
        (render_frame app_no_assets gl_no_assets) ! 0) ''bloomBlur''
        = Some (color_attachment (render_frame app_no_assets gl_no_assets)
             (draw_framebuffer (pass_draws (blurProg (progs app_no_assets))
                (render_frame app_no_assets gl_no_assets) ! 14)) 0)"
proof -
  obtain A g0 where s: "main_setup env_no_assets = Inr (A, g0)"
    and a: "\<forall>k. let g' = render_frame A ((render_frame A ^^ k) g0);
               blur = pass_draws (blurProg (progs A)) g';
               comp = pass_draws (combineProg (progs A)) g'
           in length blur = 15 \<and> length comp = 1
            \<and> draw_framebuffer (blur ! 14) = pingpongFBO (bloomFBO A) ! 1
            \<and> sampled_texture (comp ! 0) ''bloomBlur''
                = Some (pingpongColorbuffers (bloomFBO A) ! 1)
            \<and> sampled_texture (comp ! 0) ''bloomBlur''
                = Some (color_attachment g' (draw_framebuffer (blur ! 14)) 0)"
    using composite_reads_last_blur_output [OF no_assets_ok] by blast
  have e: "A = app_no_assets" "g0 = gl_no_assets"
    using s no_assets_setup by simp_all
  have "length (pass_draws (blurProg (progs A)) (render_frame A g0)) = 15"
    "sampled_texture (pass_draws (combineProg (progs A)) (render_frame A g0) ! 0) ''bloomBlur''
            = Some (color_attachment (render_frame A g0)
                 (draw_framebuffer (pass_draws (blurProg (progs A)) (render_frame A g0) ! 14)) 0)"
    using a [rule_format, of 0] unfolding Let_def funpow_0 by blast+
  with no_assets_setup no_assets_ok show ?thesis unfolding e by blast
qed

text \<open>
  C7. In every frame after a start-up that passes the three fatal checks, the frame
  issues one bright-pass draw and 15 blur draws, and in each of them the texture read
  through the pass's sampler (\<^verbatim>\<open>scene\<close> for the bright pass, \<^verbatim>\<open>image\<close> for the blur) is a
  texture object that is no colour attachment of the framebuffer bound for writing.
\<close>

theorem no_self_feedback:
  assumes "glfwInit_ok env" "window_created env" "glad_loaded env"
  shows "\<exists>A g0. main_setup env = Inr (A, g0)
     \<and> (\<forall>k. let g' = render_frame A ((render_frame A ^^ k) g0);
               bright = pass_draws (brightProg (progs A)) g';
               blur = pass_draws (blurProg (progs A)) g'
           in length bright = 1 \<and> length blur = 15
            \<and> (\<forall>d \<in> set bright. \<exists>t. sampled_texture d ''scene'' = Some t \<and> t \<noteq> 0
                  \<and> (\<forall>a. color_attachment g' (draw_framebuffer d) a \<noteq> t))
            \<and> (\<forall>d \<in> set blur. \<exists>t. sampled_texture d ''image'' = Some t \<and> t \<noteq> 0
                  \<and> (\<forall>a. color_attachment g' (draw_framebuffer d) a \<noteq> t)))"
proof -
  obtain A g0 where s: "main_setup env = Inr (A, g0)" and inv: "frame_inv (tex_names g0 - 4) A g0"
    using main_setup_inv [OF assms] by blast
  let ?n = "tex_names g0 - 4"
  have "\<forall>k. let g' = render_frame A ((render_frame A ^^ k) g0);
               bright = pass_draws (brightProg (progs A)) g';
               blur = pass_draws (blurProg (progs A)) g'
           in length bright = 1 \<and> length blur = 15
            \<and> (\<forall>d \<in> set bright. \<exists>t. sampled_texture d ''scene'' = Some t \<and> t \<noteq> 0
                  \<and> (\<forall>a. color_attachment g' (draw_framebuffer d) a \<noteq> t))
            \<and> (\<forall>d \<in> set blur. \<exists>t. sampled_texture d ''image'' = Some t \<and> t \<noteq> 0
                  \<and> (\<forall>a. color_attachment g' (draw_framebuffer d) a \<noteq> t))"
  proof
    fix k
    let ?g = "(render_passes 15 A ^^ k) g0"
    let ?g' = "render_passes 15 A ?g"
    have invk: "frame_inv ?n A ?g" by (rule frame_inv_frames [OF inv])
    have inv': "frame_inv ?n A ?g'" by (rule frame_inv_preserved [OF invk])
    obtain b where b: "pass_draws 2 ?g' = [b]" "draw_framebuffer b = 2"
      "draw_textures b 0 = Suc (Suc ?n)" "draw_uniforms b ''scene'' = Some 0"
      using frame_bright_draws [OF invk, of 15] by blast
    have len: "length (pass_draws 3 ?g') = 15"
      using frame_blur_pass(1) [OF invk, of 0 15] by simp
    have bright: "\<forall>d \<in> set (pass_draws 2 ?g'). \<exists>t. sampled_texture d ''scene'' = Some t \<and> t \<noteq> 0
                  \<and> (\<forall>a. color_attachment ?g' (draw_framebuffer d) a \<noteq> t)"
      using b frame_inv_attachments [OF inv'] by (simp add: sampled_texture_def)
    have blur: "\<forall>d \<in> set (pass_draws 3 ?g'). \<exists>t. sampled_texture d ''image'' = Some t \<and> t \<noteq> 0
                  \<and> (\<forall>a. color_attachment ?g' (draw_framebuffer d) a \<noteq> t)"
    proof
      fix d assume "d \<in> set (pass_draws 3 ?g')"
      then obtain j where j: "j < 15" "d = pass_draws 3 ?g' ! j"
        using len by (metis in_set_conv_nth)
      show "\<exists>t. sampled_texture d ''image'' = Some t \<and> t \<noteq> 0
                  \<and> (\<forall>a. color_attachment ?g' (draw_framebuffer d) a \<noteq> t)"
        using frame_blur_pass(2,3) [OF invk j(1)] frame_inv_attachments [OF inv'] j(2)
        by (cases "even j") simp_all
    qed
    show "let g' = render_frame A ((render_frame A ^^ k) g0);
               bright = pass_draws (brightProg (progs A)) g';
               blur = pass_draws (blurProg (progs A)) g'
           in length bright = 1 \<and> length blur = 15
            \<and> (\<forall>d \<in> set bright. \<exists>t. sampled_texture d ''scene'' = Some t \<and> t \<noteq> 0
                  \<and> (\<forall>a. color_attachment g' (draw_framebuffer d) a \<noteq> t))
            \<and> (\<forall>d \<in> set blur. \<exists>t. sampled_texture d ''image'' = Some t \<and> t \<noteq> 0
                  \<and> (\<forall>a. color_attachment g' (draw_framebuffer d) a \<noteq> t))"
      unfolding Let_def render_frame_eq frame_inv_names [OF invk]
      using bright blur len b(1) by simp
  qed
  with s show ?thesis by blast
qed

theorem no_self_feedback_witness:
  "glfwInit_ok env_no_assets \<and> window_created env_no_assets \<and> glad_loaded env_no_assets
   \<and> main_setup env_no_assets = Inr (app_no_assets, gl_no_assets)
   \<and> length (pass_draws (brightProg (progs app_no_assets))
        (render_frame app_no_assets (render_frame app_no_assets gl_no_assets))) = 1
   \<and> length (pass_draws (blurProg (progs app_no_assets))
        (render_frame app_no_assets (render_frame app_no_assets gl_no_assets))) = 15
   \<and> (\<exists>t. sampled_texture (pass_draws (blurProg (progs app_no_assets))
              (render_frame app_no_assets (render_frame app_no_assets gl_no_assets)) ! 7)
              ''image'' = Some t
          \<and> color_attachment (render_frame app_no_assets (render_frame app_no_assets gl_no_assets))
              (draw_framebuffer (pass_draws (blurProg (progs app_no_assets))
                 (render_frame app_no_assets (render_frame app_no_assets gl_no_assets)) ! 7)) 0
              \<noteq> t)"
proof -
  obtain A g0 where s: "main_setup env_no_assets = Inr (A, g0)"
    and a: "\<forall>k. let g' = render_frame A ((render_frame A ^^ k) g0);
               bright = pass_draws (brightProg (progs A)) g';
               blur = pass_draws (blurProg (progs A)) g'
           in length bright = 1 \<and> length blur = 15
            \<and> (\<forall>d \<in> set bright. \<exists>t. sampled_texture d ''scene'' = Some t \<and> t \<noteq> 0
                  \<and> (\<forall>a. color_attachment g' (draw_framebuffer d) a \<noteq> t))
            \<and> (\<forall>d \<in> set blur. \<exists>t. sampled_texture d ''image'' = Some t \<and> t \<noteq> 0
                  \<and> (\<forall>a. color_attachment g' (draw_framebuffer d) a \<noteq> t))"
    using no_self_feedback [OF no_assets_ok] by blast
  have e: "A = app_no_assets" "g0 = gl_no_assets"
    using s no_assets_setup by simp_all
  let ?g' = "render_frame A (render_frame A g0)"
  have l: "length (pass_draws (brightProg (progs A)) ?g') = 1"
    "length (pass_draws (blurProg (progs A)) ?g') = 15"
    and all: "\<forall>d \<in> set (pass_draws (blurProg (progs A)) ?g').
                \<exists>t. sampled_texture d ''image'' = Some t \<and> t \<noteq> 0
                  \<and> (\<forall>a. color_attachment ?g' (draw_framebuffer d) a \<noteq> t)"
    using a [rule_format, of 1] unfolding Let_def by simp_all
  have "pass_draws (blurProg (progs A)) ?g' ! 7 \<in> set (pass_draws (blurProg (progs A)) ?g')"
    using l(2) by simp
  then have "\<exists>t. sampled_texture (pass_draws (blurProg (progs A)) ?g' ! 7) ''image'' = Some t
              \<and> color_attachment ?g' (draw_framebuffer (pass_draws (blurProg (progs A)) ?g' ! 7)) 0 \<noteq> t"
    using all by blast
  with no_assets_setup l no_assets_ok show ?thesis unfolding e by blast
qed

section \<open>Texture fallbacks\<close>

lemma loadTexture_le:
  "t \<le> tex_names g \<Longrightarrow> t \<le> tex_names (snd (loadTexture stbi path srgb g))"
  using loadTexture_names(1) [of g stbi path srgb] by simp

lemma load_materials_missing:
  "stbi ''resources/normal.png'' = None \<Longrightarrow> texNormal (fst (load_materials stbi g)) = 0"
  "stbi ''resources/metallic.png'' = None \<Longrightarrow> texMetallic (fst (load_materials stbi g)) = 0"
  "stbi ''resources/roughness.png'' = None \<Longrightarrow> texRoughness (fst (load_materials stbi g)) = 0"
  "stbi ''resources/ao.png'' = None \<Longrightarrow> texAO (fst (load_materials stbi g)) = 0"
  by (simp_all add: load_materials_def Let_def split_def loadTexture_fail)

lemma loadTexture_ok_name:
  "stbi path \<noteq> None \<Longrightarrow> fst (loadTexture stbi path srgb g) = Suc (tex_names g)"
  "stbi path \<noteq> None \<Longrightarrow> tex_names (snd (loadTexture stbi path srgb g)) = Suc (tex_names g)"
  by (auto simp add: loadTexture_def Let_def split_def gl_ops)

lemma load_materials_albedo:
  "texAlbedo (fst (load_materials stbi g)) = Suc (tex_names g)"
  "Suc (tex_names g) \<le> tex_names (snd (load_materials stbi g))"
  by (cases "stbi ''resources/albedo.png''";
      simp add: load_materials_def Let_def split_def loadTexture_fail loadTexture_ok_name
        loadTexture_le gl_ops)+

lemma load_materials_white:
  "stbi ''resources/albedo.png'' = None \<Longrightarrow>
     tex_level0 (snd (load_materials stbi g)) (Suc (tex_names g)) = Some white_pixel"
  by (simp add: load_materials_def Let_def split_def loadTexture_fail loadTexture_names(2)
      loadTexture_le gl_ops white_pixel_def)

lemma render_passes_tex_level0: "tex_level0 (render_passes N A g) = tex_level0 g"
  by (simp add: render_passes_def Let_def split_def composite_pass_def bright_pass_def
      geometry_pass_def gl_ops blur_loop_fields)

lemma frames_tex_level0: "tex_level0 ((render_passes N A ^^ k) g) = tex_level0 g"
  by (induction k) (simp_all add: render_passes_tex_level0)

lemma geometry_pass_bindings:
  "texture_binding (geometry_pass A g) 0 = texAlbedo (mats A)"
  "texture_binding (geometry_pass A g) (Suc 0)
     = (if texNormal (mats A) \<noteq> 0 then texNormal (mats A) else texAlbedo (mats A))"
  "texture_binding (geometry_pass A g) 2
     = (if texMetallic (mats A) \<noteq> 0 then texMetallic (mats A) else texAlbedo (mats A))"
  "texture_binding (geometry_pass A g) 3
     = (if texRoughness (mats A) \<noteq> 0 then texRoughness (mats A) else texAlbedo (mats A))"
  "texture_binding (geometry_pass A g) 4
     = (if texAO (mats A) \<noteq> 0 then texAO (mats A) else texAlbedo (mats A))"
  "tex_level0 (geometry_pass A g) = tex_level0 g"
  by (simp_all add: geometry_pass_def Let_def gl_ops)

lemma main_setup_materials:
  fixes env :: environment
  defines "g5 \<equiv> snd (loadObjToMesh (obj_indices env) (snd (createProgram (snd (createProgram
                   (snd (createProgram (snd (createProgram gl_init)))))))))"
  assumes "glfwInit_ok env" "window_created env" "glad_loaded env"
  shows "\<exists>A g0. main_setup env = Inr (A, g0)
           \<and> mats A = fst (load_materials (stbi_load env) g5)
           \<and> (\<forall>t. t \<le> tex_names (snd (load_materials (stbi_load env) g5)) \<longrightarrow>
                 tex_level0 g0 t = tex_level0 (snd (load_materials (stbi_load env) g5)) t)"
proof -
  let ?P = "\<lparr> pbrProg = Suc 0, brightProg = Suc (Suc 0), blurProg = Suc (Suc (Suc 0)),
              combineProg = Suc (Suc (Suc (Suc 0))) \<rparr>"
  let ?g6 = "snd (load_materials (stbi_load env) g5)"
  let ?g0 = "bind_default_uniforms ?P (snd (BloomFBO_init SCR_W SCR_H (snd (initQuad ?g6))))"
  obtain A where A: "main_setup env = Inr (A, ?g0)"
    "mats A = fst (load_materials (stbi_load env) g5)"
    using main_setup_shape [OF assms(2-4)] unfolding g5_def by simp
  have "\<forall>t. t \<le> tex_names ?g6 \<longrightarrow> tex_level0 ?g0 t = tex_level0 ?g6 t"
    by (simp add: BloomFBO_init_other initQuad_def gl_ops Let_def split_def
        bind_default_uniforms_def)
  with A show ?thesis by blast
qed

text \<open>
  C6 (as amended). When the three fatal checks pass, start-up returns normally whatever
  the decoder answers, and the albedo texture is a texture object. In the geometry pass
  of every frame unit 0 holds the albedo texture, and each of the units 1 to 4 (normal,
  metallic, roughness, ambient occlusion) whose file did not load holds the albedo
  texture too. When the albedo file did not load, the albedo texture is the 1x1 white
  RGB texture; so a missing texture is shown as white exactly when the albedo file is
  missing as well.
\<close>

theorem missing_textures_fall_back:
  assumes "glfwInit_ok env" "window_created env" "glad_loaded env"
  shows "\<exists>A g0. main_setup env = Inr (A, g0) \<and> texAlbedo (mats A) \<noteq> 0
     \<and> (\<forall>k. let g = geometry_pass A (((render_frame A ^^ k) g0)\<lparr> draws := [] \<rparr>)
           in texture_binding g 0 = texAlbedo (mats A)
            \<and> (stbi_load env ''resources/normal.png'' = None \<longrightarrow>
                 texture_binding g 1 = texAlbedo (mats A))
            \<and> (stbi_load env ''resources/metallic.png'' = None \<longrightarrow>
                 texture_binding g 2 = texAlbedo (mats A))
            \<and> (stbi_load env ''resources/roughness.png'' = None \<longrightarrow>
                 texture_binding g 3 = texAlbedo (mats A))
            \<and> (stbi_load env ''resources/ao.png'' = None \<longrightarrow>
                 texture_binding g 4 = texAlbedo (mats A))
            \<and> (stbi_load env ''resources/albedo.png'' = None \<longrightarrow>
                 tex_level0 g (texAlbedo (mats A)) = Some white_pixel))"
proof -
  let ?g5 = "snd (loadObjToMesh (obj_indices env) (snd (createProgram (snd (createProgram
                   (snd (createProgram (snd (createProgram gl_init)))))))))"
  let ?M = "load_materials (stbi_load env) ?g5"
  obtain A g0 where s: "main_setup env = Inr (A, g0)" and m: "mats A = fst ?M"
    and t: "\<forall>t. t \<le> tex_names (snd ?M) \<longrightarrow> tex_level0 g0 t = tex_level0 (snd ?M) t"
    using main_setup_materials [OF assms] by blast
  have alb: "texAlbedo (mats A) = Suc (tex_names ?g5)"
    by (simp add: m load_materials_albedo)
  have white: "stbi_load env ''resources/albedo.png'' = None \<longrightarrow>
                 tex_level0 g0 (texAlbedo (mats A)) = Some white_pixel"
    using t load_materials_albedo(2) [of ?g5 "stbi_load env"]
    by (simp add: alb load_materials_white)
  have "\<forall>k. let g = geometry_pass A (((render_frame A ^^ k) g0)\<lparr> draws := [] \<rparr>)
           in texture_binding g 0 = texAlbedo (mats A)
            \<and> (stbi_load env ''resources/normal.png'' = None \<longrightarrow>
                 texture_binding g 1 = texAlbedo (mats A))
            \<and> (stbi_load env ''resources/metallic.png'' = None \<longrightarrow>
                 texture_binding g 2 = texAlbedo (mats A))
            \<and> (stbi_load env ''resources/roughness.png'' = None \<longrightarrow>
                 texture_binding g 3 = texAlbedo (mats A))
            \<and> (stbi_load env ''resources/ao.png'' = None \<longrightarrow>
                 texture_binding g 4 = texAlbedo (mats A))
            \<and> (stbi_load env ''resources/albedo.png'' = None \<longrightarrow>
                 tex_level0 g (texAlbedo (mats A)) = Some white_pixel)"
    using white
    by (simp add: Let_def geometry_pass_bindings render_frame_eq frames_tex_level0 m
        load_materials_missing)
  with s alb show ?thesis by auto
qed

lemma albedo_only_ok:
  "glfwInit_ok env_albedo_only" "window_created env_albedo_only" "glad_loaded env_albedo_only"
  by (simp_all add: env_albedo_only_def)

theorem missing_textures_fall_back_witness:
  "glfwInit_ok env_no_assets \<and> window_created env_no_assets \<and> glad_loaded env_no_assets
   \<and> stbi_load env_no_assets ''resources/albedo.png'' = None
   \<and> stbi_load env_no_assets ''resources/ao.png'' = None
   \<and> main_setup env_no_assets = Inr (app_no_assets, gl_no_assets)
   \<and> texture_binding (geometry_pass app_no_assets
        ((render_frame app_no_assets gl_no_assets)\<lparr> draws := [] \<rparr>)) 4
        = texAlbedo (mats app_no_assets)
   \<and> tex_level0 (geometry_pass app_no_assets
        ((render_frame app_no_assets gl_no_assets)\<lparr> draws := [] \<rparr>))
        (texAlbedo (mats app_no_assets)) = Some white_pixel"
proof -
  have m: "stbi_load env_no_assets ''resources/albedo.png'' = None"
    "stbi_load env_no_assets ''resources/ao.png'' = None"
    by (simp_all add: env_no_assets_def)
  obtain A g0 where s: "main_setup env_no_assets = Inr (A, g0)"
    and a: "\<forall>k. let g = geometry_pass A (((render_frame A ^^ k) g0)\<lparr> draws := [] \<rparr>)
           in texture_binding g 0 = texAlbedo (mats A)
            \<and> (stbi_load env_no_assets ''resources/normal.png'' = None \<longrightarrow>
                 texture_binding g 1 = texAlbedo (mats A))
            \<and> (stbi_load env_no_assets ''resources/metallic.png'' = None \<longrightarrow>
                 texture_binding g 2 = texAlbedo (mats A))
            \<and> (stbi_load env_no_assets ''resources/roughness.png'' = None \<longrightarrow>
                 texture_binding g 3 = texAlbedo (mats A))
            \<and> (stbi_load env_no_assets ''resources/ao.png'' = None \<longrightarrow>
                 texture_binding g 4 = texAlbedo (mats A))
            \<and> (stbi_load env_no_assets ''resources/albedo.png'' = None \<longrightarrow>
                 tex_level0 g (texAlbedo (mats A)) = Some white_pixel)"
    using missing_textures_fall_back [OF no_assets_ok] by blast
  have e: "A = app_no_assets" "g0 = gl_no_assets"
    using s no_assets_setup by simp_all
  have "texture_binding (geometry_pass A ((render_frame A g0)\<lparr> draws := [] \<rparr>)) 4
            = texAlbedo (mats A)"
    "tex_level0 (geometry_pass A ((render_frame A g0)\<lparr> draws := [] \<rparr>)) (texAlbedo (mats A))
            = Some white_pixel"
    using a [rule_format, of 1] m unfolding Let_def by simp_all
  with no_assets_setup m no_assets_ok show ?thesis unfolding e by blast
qed

lemma albedo_only_setup: "main_setup env_albedo_only = Inr (app_albedo_only, gl_albedo_only)"
proof -
  obtain A g where "main_setup env_albedo_only = Inr (A, g)"
    using main_setup_inv [OF albedo_only_ok] by blast
  then show ?thesis by (simp add: app_albedo_only_def gl_albedo_only_def)
qed

text \<open>
  C6 (counterexample to the claim as stated). Only the albedo file exists, a 2x2 image.
  The path of the normal map does not exist, start-up returns normally, and the
  texture the geometry pass binds to unit 1 is texture 1, the albedo texture, whose
  image is the 2x2 image and not the 1x1 white fallback.
\<close>

theorem missing_normal_map_uses_albedo_image:
  "stbi_load env_albedo_only ''resources/normal.png'' = None
   \<and> main_setup env_albedo_only = Inr (app_albedo_only, gl_albedo_only)
   \<and> texAlbedo (mats app_albedo_only) = 1
   \<and> texture_binding (geometry_pass app_albedo_only gl_albedo_only) 1 = 1
   \<and> tex_level0 (geometry_pass app_albedo_only gl_albedo_only) 1
       = Some \<lparr> img_internal = GL_RGB8, img_width = 2, img_height = 2, img_format = GL_RGB,
                img_type = GL_UNSIGNED_BYTE,
                img_data = Some [0, 0, 0, 0, 0, 0, 0, 0, 0, 0, 0, 0] \<rparr>
   \<and> tex_level0 (geometry_pass app_albedo_only gl_albedo_only)
        (texture_binding (geometry_pass app_albedo_only gl_albedo_only) 1) \<noteq> Some white_pixel"
proof -
  let ?g5 = "snd (loadObjToMesh (obj_indices env_albedo_only) (snd (createProgram (snd (createProgram
                   (snd (createProgram (snd (createProgram gl_init)))))))))"
  let ?M = "load_materials (stbi_load env_albedo_only) ?g5"
  let ?A = app_albedo_only
  let ?g0 = gl_albedo_only
  obtain A g0 where s: "main_setup env_albedo_only = Inr (A, g0)" and m0: "mats A = fst ?M"
    and t0: "\<forall>t. t \<le> tex_names (snd ?M) \<longrightarrow> tex_level0 g0 t = tex_level0 (snd ?M) t"
    using main_setup_materials [OF albedo_only_ok] by blast
  have e: "A = ?A" "g0 = ?g0"
    using s albedo_only_setup by simp_all
  note m = m0 [unfolded e] and t = t0 [unfolded e]
  have n: "stbi_load env_albedo_only ''resources/normal.png'' = None"
    by (simp add: env_albedo_only_def)
  have g5: "tex_names ?g5 = 0"
    by (simp add: env_albedo_only_def loadObjToMesh_def createProgram_def gl_ops gl_init_def)
  have alb: "texAlbedo (mats ?A) = 1"
    by (simp add: m load_materials_albedo g5)
  have b: "texture_binding (geometry_pass ?A ?g0) 1 = 1"
    using n by (simp add: geometry_pass_bindings m load_materials_missing)
       (simp add: alb [unfolded m])
  have le: "1 \<le> tex_names (snd ?M)"
    using load_materials_albedo(2) [of ?g5 "stbi_load env_albedo_only"] g5 by simp
  have "tex_level0 (snd ?M) 1
            = Some \<lparr> img_internal = GL_RGB8, img_width = 2, img_height = 2, img_format = GL_RGB,
                     img_type = GL_UNSIGNED_BYTE,
                     img_data = Some [0, 0, 0, 0, 0, 0, 0, 0, 0, 0, 0, 0] \<rparr>"
    by (simp add: env_albedo_only_def load_materials_def loadTexture_def Let_def split_def
        loadObjToMesh_def createProgram_def gl_ops gl_init_def)
  then have i: "tex_level0 (geometry_pass ?A ?g0) 1
            = Some \<lparr> img_internal = GL_RGB8, img_width = 2, img_height = 2, img_format = GL_RGB,
                     img_type = GL_UNSIGNED_BYTE,
                     img_data = Some [0, 0, 0, 0, 0, 0, 0, 0, 0, 0, 0, 0] \<rparr>"
    using t le by (simp add: geometry_pass_bindings)
  have "tex_level0 (geometry_pass ?A ?g0) (texture_binding (geometry_pass ?A ?g0) 1)
          \<noteq> Some white_pixel"
    by (simp only: b i) (simp add: white_pixel_def)
  with albedo_only_setup n alb b i show ?thesis by blast
qed

end
